theory Spec2Isabelle
  imports Complex_Main
begin

section \<open>ProvusFormatter: header parsers and descriptor writers\<close>

text \<open>
  A shallow embedding of the core of ProvusFormatter: the TEM header scanner
  (\<^verbatim>\<open>FileProcessor.parse_file_headers\<close>), the waveform and sampling descriptor
  writers (\<^verbatim>\<open>_generate_waveform_csv\<close>, \<^verbatim>\<open>_generate_sampling_csv\<close>), the PEM
  pipeline (\<^verbatim>\<open>parse_pem_file\<close>, \<^verbatim>\<open>generate_pem_waveform_csv\<close>,
  \<^verbatim>\<open>generate_pem_sampling_csv\<close> and their caller in \<^verbatim>\<open>AnalysisPage.process_files\<close>)
  and the MCG importer (\<^verbatim>\<open>parse_mcg_file\<close>).

  Conventions of the model.
  \<^item> Text is a \<open>string\<close> (a list of 8-bit characters); the header formats are ASCII, and
    whitespace, digits and letter case are the ASCII ones.
  \<^item> A Python \<open>float\<close> is an exact rational number: rounding, overflow, infinities and
    NaN are outside the model. \<open>float(s)\<close> is \<open>py_float\<close>, which accepts the decimal and
    exponent notation of Python (with digit-group underscores) and rejects everything
    else with \<open>None\<close>, the model of \<open>ValueError\<close>. A format specification
    \<open>.Nf\<close> is \<open>fmt_fixed N\<close>.
  \<^item> An exception is a value of \<open>py_error\<close>; a function that can raise returns a sum or
    an option, and a \<open>try/except\<close> of the source is the case distinction on it.
  \<^item> The file system is the list of the writes made so far, newest first: a pair of a
    path and the text written. A file that existed before a run is an earlier write. Opening
    a file for writing always succeeds, and paths are POSIX paths.
  \<^item> A text file is given to the TEM and PEM parsers as the list of lines that iterating
    over the file yields, to the MCG parser as its whole content.
\<close>

subsection \<open>Strings and numbers of the Python library\<close>

definition is_space :: "char \<Rightarrow> bool" where
  "is_space c = (c \<in> set [CHR 0x09, CHR 0x0A, CHR 0x0B, CHR 0x0C, CHR 0x0D,
                             CHR 0x1C, CHR 0x1D, CHR 0x1E, CHR 0x1F, CHR 0x20])"

definition strip_chars :: "string \<Rightarrow> string \<Rightarrow> string" where
  "strip_chars cs s =
     rev (dropWhile (\<lambda>c. c \<in> set cs) (rev (dropWhile (\<lambda>c. c \<in> set cs) s)))"

definition strip :: "string \<Rightarrow> string" where
  "strip s = rev (dropWhile is_space (rev (dropWhile is_space s)))"

fun startswith :: "string \<Rightarrow> string \<Rightarrow> bool" where
  "startswith s [] = True"
| "startswith [] (p # ps) = False"
| "startswith (c # s) (p # ps) = (c = p \<and> startswith s ps)"

fun contains :: "string \<Rightarrow> string \<Rightarrow> bool" where
  "contains sub [] = (sub = [])"
| "contains sub (c # s) = (startswith (c # s) sub \<or> contains sub s)"

function split_str :: "string \<Rightarrow> string \<Rightarrow> string list" where
  "split_str sep s =
     (if sep = [] then [s]
      else if s = [] then [[]]
      else if startswith s sep then [] # split_str sep (drop (length sep) s)
      else (case split_str sep (tl s) of
              w # ws \<Rightarrow> (hd s # w) # ws
            | [] \<Rightarrow> [[hd s]]))"
  by pat_completeness auto
termination
  by (relation "measure (\<lambda>(sep, s). length s)") auto

fun split_ws_aux :: "string \<Rightarrow> string \<Rightarrow> string list" where
  "split_ws_aux cur [] = (if cur = [] then [] else [cur])"
| "split_ws_aux cur (c # s) =
     (if is_space c
      then (if cur = [] then split_ws_aux [] s else cur # split_ws_aux [] s)
      else split_ws_aux (cur @ [c]) s)"

definition split_ws :: "string \<Rightarrow> string list" where
  "split_ws s = split_ws_aux [] s"

definition is_digit :: "char \<Rightarrow> bool" where
  "is_digit c = (c \<in> set ''0123456789'')"

definition digit_val :: "char \<Rightarrow> int" where
  "digit_val c = of_char c - 48"

fun digits_val :: "int \<Rightarrow> string \<Rightarrow> int" where
  "digits_val acc [] = acc"
| "digits_val acc (c # cs) = digits_val (10 * acc + digit_val c) cs"

fun take_digitpart_aux :: "string \<Rightarrow> string \<Rightarrow> string \<times> string" where
  "take_digitpart_aux acc [] = (acc, [])"
| "take_digitpart_aux acc [c] = (if is_digit c then (acc @ [c], []) else (acc, [c]))"
| "take_digitpart_aux acc (c # d # s) =
     (if is_digit c then take_digitpart_aux (acc @ [c]) (d # s)
      else if c = CHR ''_'' \<and> is_digit d then take_digitpart_aux (acc @ [d]) s
      else (acc, c # d # s))"

definition take_digitpart :: "string \<Rightarrow> (string \<times> string) option" where
  "take_digitpart s =
     (case s of
        [] \<Rightarrow> None
      | c # r \<Rightarrow> if is_digit c then Some (take_digitpart_aux [c] r) else None)"

definition take_sign :: "string \<Rightarrow> bool \<times> string" where
  "take_sign s =
     (case s of
        [] \<Rightarrow> (False, [])
      | c # r \<Rightarrow> if c = CHR ''-'' then (True, r)
                 else if c = CHR ''+'' then (False, r) else (False, c # r))"

definition take_mantissa :: "string \<Rightarrow> (string \<times> string \<times> string) option" where
  "take_mantissa s =
     (case take_digitpart s of
        Some (ip, r) \<Rightarrow>
          (case r of
             c # r' \<Rightarrow>
               if c = CHR ''.'' then
                 (case take_digitpart r' of
                    Some (fp, r'') \<Rightarrow> Some (ip, fp, r'')
                  | None \<Rightarrow> Some (ip, [], r'))
               else Some (ip, [], r)
           | [] \<Rightarrow> Some (ip, [], []))
      | None \<Rightarrow>
          (case s of
             c # r' \<Rightarrow>
               if c = CHR ''.'' then
                 (case take_digitpart r' of
                    Some (fp, r'') \<Rightarrow> Some ([], fp, r'')
                  | None \<Rightarrow> None)
               else None
           | [] \<Rightarrow> None))"

definition take_exponent :: "string \<Rightarrow> int option" where
  "take_exponent s =
     (case s of
        [] \<Rightarrow> Some 0
      | c # r \<Rightarrow>
          if c = CHR ''e'' \<or> c = CHR ''E'' then
            (case take_sign r of
               (neg, r') \<Rightarrow>
                 (case take_digitpart r' of
                    Some (ds, []) \<Rightarrow>
                      Some (if neg then - digits_val 0 ds else digits_val 0 ds)
                  | _ \<Rightarrow> None))
          else None)"

definition pow10 :: "int \<Rightarrow> rat" where
  "pow10 e = (if 0 \<le> e then 10 ^ nat e else 1 / 10 ^ nat (- e))"

definition py_float :: "string \<Rightarrow> rat option" where
  "py_float s =
     (case take_sign (strip s) of
        (neg, r) \<Rightarrow>
          (case take_mantissa r of
             None \<Rightarrow> None
           | Some (ip, fp, r') \<Rightarrow>
               (case take_exponent r' of
                  None \<Rightarrow> None
                | Some e \<Rightarrow>
                    (let m = of_int (digits_val 0 (ip @ fp)) * pow10 (e - int (length fp))
                     in Some (if neg then - m else m)))))"

definition py_int :: "string \<Rightarrow> int option" where
  "py_int s =
     (case take_sign (strip s) of
        (neg, r) \<Rightarrow>
          (case take_digitpart r of
             Some (ds, []) \<Rightarrow>
               Some (if neg then - digits_val 0 ds else digits_val 0 ds)
           | _ \<Rightarrow> None))"

definition digit_char :: "int \<Rightarrow> char" where
  "digit_char d = ''0123456789'' ! nat d"

function show_digits :: "int \<Rightarrow> string" where
  "show_digits n =
     (if n < 10 then [digit_char n]
      else show_digits (n div 10) @ [digit_char (n mod 10)])"
  by pat_completeness auto
termination
  by (relation "measure nat") auto

declare show_digits.simps [simp del]

definition show_nat :: "nat \<Rightarrow> string" where
  "show_nat n = show_digits (int n)"

definition round_half_even :: "rat \<Rightarrow> int" where
  "round_half_even a =
     (let f = \<lfloor>a\<rfloor>; d = a - of_int f
      in if d < 1 / 2 then f
         else if 1 / 2 < d then f + 1
         else if even f then f else f + 1)"

definition fmt_fixed :: "nat \<Rightarrow> rat \<Rightarrow> string" where
  "fmt_fixed p x =
     (let r = round_half_even (\<bar>x\<bar> * 10 ^ p);
          ip = show_digits (r div 10 ^ p);
          fp = show_digits (r mod 10 ^ p)
      in (if x < 0 then ''-'' else '''') @ ip @
         (if p = 0 then '''' else ''.'' @ replicate (p - length fp) CHR ''0'' @ fp))"

definition frac_part :: "string \<Rightarrow> string" where
  "frac_part s = rev (takeWhile (\<lambda>c. c \<noteq> CHR ''.'') (rev s))"

definition fixed_decimals :: "nat \<Rightarrow> string \<Rightarrow> bool" where
  "fixed_decimals p s =
     (CHR ''.'' \<in> set s \<and> length (frac_part s) = p \<and> list_all is_digit (frac_part s))"

definition upper_char :: "char \<Rightarrow> char" where
  "upper_char c =
     (case map_of (zip ''abcdefghijklmnopqrstuvwxyz'' ''ABCDEFGHIJKLMNOPQRSTUVWXYZ'') c of
        Some u \<Rightarrow> u
      | None \<Rightarrow> c)"

definition lower_char :: "char \<Rightarrow> char" where
  "lower_char c =
     (case map_of (zip ''ABCDEFGHIJKLMNOPQRSTUVWXYZ'' ''abcdefghijklmnopqrstuvwxyz'') c of
        Some l \<Rightarrow> l
      | None \<Rightarrow> c)"

definition upper :: "string \<Rightarrow> string" where
  "upper s = map upper_char s"

definition lower :: "string \<Rightarrow> string" where
  "lower s = map lower_char s"

definition split1 :: "char \<Rightarrow> string \<Rightarrow> string \<times> string" where
  "split1 sep s = (takeWhile (\<lambda>c. c \<noteq> sep) s, drop 1 (dropWhile (\<lambda>c. c \<noteq> sep) s))"

fun nth_opt :: "'a list \<Rightarrow> nat \<Rightarrow> 'a option" where
  "nth_opt [] n = None"
| "nth_opt (x # xs) 0 = Some x"
| "nth_opt (x # xs) (Suc n) = nth_opt xs n"

fun join :: "string \<Rightarrow> string list \<Rightarrow> string" where
  "join sep [] = []"
| "join sep [x] = x"
| "join sep (x # y # xs) = x @ sep @ join sep (y # xs)"

definition str_opt :: "string option \<Rightarrow> string" where
  "str_opt v = (case v of None \<Rightarrow> ''None'' | Some s \<Rightarrow> s)"

definition falsy :: "string option \<Rightarrow> bool" where
  "falsy v = (v = None \<or> v = Some [])"

subsection \<open>TEM headers: \<^verbatim>\<open>FileProcessor.parse_file_headers\<close>\<close>

record header_data =
  base_frequency :: "string option"
  units :: "string option"
  duty_cycle :: "string option"
  tx_waveform :: string
  system_info :: "string option"
  survey_config :: "string option"
  data_type :: "string option"
  offtime :: "string option"
  times_start :: "rat list"
  times_end :: "rat list"
  num_channels :: "nat option"
  header_lines :: "string list"

record scan_state =
  results :: header_data
  sc_times :: "rat list option"
  sc_times_width :: "rat list option"
  current_unit :: string

definition initial_results :: header_data where
  "initial_results =
     \<lparr>base_frequency = None, units = None, duty_cycle = None, tx_waveform = ''Undefined'',
      system_info = None, survey_config = None, data_type = None, offtime = None,
      times_start = [], times_end = [], num_channels = None, header_lines = []\<rparr>"

definition initial_state :: scan_state where
  "initial_state =
     \<lparr>results = initial_results, sc_times = None, sc_times_width = None,
      current_unit = ''ms''\<rparr>"

definition parse_float_list :: "string \<Rightarrow> rat list option" where
  "parse_float_list values_str =
     those (map (\<lambda>x. py_float (strip x))
                (filter (\<lambda>x. strip x \<noteq> []) (split_str '','' values_str)))"

definition explicit_values :: "string \<Rightarrow> string \<Rightarrow> rat list option" where
  "explicit_values marker line =
     (case (if contains ''='' line then nth_opt (split_str ''='' line) 1
            else nth_opt (split_str marker line) 1) of
        None \<Rightarrow> None
      | Some v \<Rightarrow>
          parse_float_list (strip (strip_chars ''(us)'' (strip_chars ''(ms)'' (strip v)))))"

definition paired_values :: "string \<Rightarrow> rat list option" where
  "paired_values line =
     (case nth_opt (split_str ''='' line) 1 of
        None \<Rightarrow> None
      | Some v \<Rightarrow> parse_float_list (strip v))"

definition process_directives :: "string \<Rightarrow> scan_state \<Rightarrow> scan_state" where
  "process_directives line st =
     (if contains ''/TIMESSTART'' line then
        (case explicit_values ''/TIMESSTART'' line of
           Some vs \<Rightarrow> st\<lparr>results := (results st)\<lparr>times_start := vs\<rparr>\<rparr>
         | None \<Rightarrow> st)
      else if contains ''/TIMESEND'' line then
        (case explicit_values ''/TIMESEND'' line of
           Some vs \<Rightarrow>
             st\<lparr>results := (results st)\<lparr>times_end := vs, num_channels := Some (length vs)\<rparr>\<rparr>
         | None \<Rightarrow> st)
      else if contains ''/TIMES(ms)='' line \<or> contains ''/TIMES(us)='' line then
        (let st' = (if contains ''us'' line then st\<lparr>current_unit := ''us''\<rparr> else st)
         in case paired_values line of
              Some vs \<Rightarrow> st'\<lparr>sc_times := Some vs\<rparr>
            | None \<Rightarrow> st')
      else if contains ''/TIMESWIDTH(ms)='' line \<or> contains ''/TIMESWIDTH(us)='' line then
        (case paired_values line of
           Some vs \<Rightarrow> st\<lparr>sc_times_width := Some vs\<rparr>
         | None \<Rightarrow> st)
      else st)"

definition set_header_field :: "string \<Rightarrow> string \<Rightarrow> header_data \<Rightarrow> header_data" where
  "set_header_field key val r =
     (if key \<in> set [''BFREQ'', ''BASEFREQ'', ''BASEFREQUENCY''] then
        r\<lparr>base_frequency :=
             Some (case py_float val of Some x \<Rightarrow> fmt_fixed 3 x | None \<Rightarrow> val)\<rparr>
      else if key = ''UNITS'' then r\<lparr>units := Some (strip_chars ''()'' val)\<rparr>
      else if key = ''TXWAVEFORM'' then r\<lparr>tx_waveform := val\<rparr>
      else if key \<in> set [''DUTYCYCLE'', ''DUTY''] then
        r\<lparr>duty_cycle :=
             Some (case py_float val of Some x \<Rightarrow> fmt_fixed 0 x | None \<Rightarrow> val)\<rparr>
      else if key \<in> set [''INSTRUMENT'', ''SYSTEM'', ''PRIMARYREMOVED''] then
        r\<lparr>system_info := Some val\<rparr>
      else if key \<in> set [''CONFIG'', ''CONFIGURATION''] then r\<lparr>survey_config := Some val\<rparr>
      else if key = ''DATATYPE'' then r\<lparr>data_type := Some val\<rparr>
      else if key = ''OFFTIME'' then r\<lparr>offtime := Some val\<rparr>
      else r)"

definition process_part :: "string \<Rightarrow> header_data \<Rightarrow> header_data" where
  "process_part part r =
     (if part = ''&'' \<or> part = [] then r
      else if contains ''='' part then
        (case split1 CHR ''='' part of
           (key, val) \<Rightarrow>
             set_header_field (upper key)
               (strip_chars [CHR '','', CHR 0x22, CHR '' '', CHR ''&''] val) r)
      else if contains '':'' part then
        (case split1 CHR '':'' part of
           (key, val) \<Rightarrow>
             set_header_field (upper key)
               (strip_chars [CHR '','', CHR 0x22, CHR '' '', CHR ''&''] val) r)
      else r)"

definition process_line :: "string \<Rightarrow> scan_state \<Rightarrow> scan_state" where
  "process_line raw st =
     (let line = strip raw
      in if line = [] then st
         else
           (let st1 = st\<lparr>results :=
                          (results st)\<lparr>header_lines := header_lines (results st) @ [line]\<rparr>\<rparr>;
                st2 = process_directives line st1
            in st2\<lparr>results := fold process_part (split_ws line) (results st2)\<rparr>))"

definition scan_lines :: "string list \<Rightarrow> scan_state" where
  "scan_lines file_lines = fold process_line file_lines initial_state"

definition opt_list :: "'a list option \<Rightarrow> 'a list" where
  "opt_list v = (case v of None \<Rightarrow> [] | Some xs \<Rightarrow> xs)"

definition paired_usable :: "scan_state \<Rightarrow> bool" where
  "paired_usable st =
     (opt_list (sc_times st) \<noteq> [] \<and> opt_list (sc_times_width st) \<noteq> []
      \<and> length (opt_list (sc_times st)) = length (opt_list (sc_times_width st)))"

definition to_ms :: "string \<Rightarrow> rat list \<Rightarrow> rat list" where
  "to_ms unit xs = (if unit = ''us'' then map (\<lambda>t. t / 1000) xs else xs)"

definition resolve_times :: "scan_state \<Rightarrow> header_data" where
  "resolve_times st =
     (if paired_usable st then
        (let ts = to_ms (current_unit st) (opt_list (sc_times st));
             ws = to_ms (current_unit st) (opt_list (sc_times_width st))
         in (results st)
              \<lparr>times_start := map (\<lambda>(t, w). t - w) (zip ts ws),
               times_end := map (\<lambda>(t, w). t + w) (zip ts ws),
               num_channels := Some (length ts)\<rparr>)
      else results st)"

definition resolve_duty_cycle :: "header_data \<Rightarrow> header_data" where
  "resolve_duty_cycle r =
     (if falsy (duty_cycle r) then
        r\<lparr>duty_cycle := Some (if tx_waveform r = ''UTEM'' then ''100'' else ''Undefined'')\<rparr>
      else r)"

definition parse_file_headers :: "string list \<Rightarrow> header_data" where
  "parse_file_headers file_lines = resolve_duty_cycle (resolve_times (scan_lines file_lines))"

subsection \<open>Files, CSV text and paths\<close>

datatype py_error =
  AttributeError | KeyError | IndexError | ValueError | ZeroDivisionError | TypeError

type_synonym io = "(string \<times> string) list"

definition read_file :: "io \<Rightarrow> string \<Rightarrow> string option" where
  "read_file fs path = map_of fs path"

definition write_file :: "string \<Rightarrow> string \<Rightarrow> io \<Rightarrow> io" where
  "write_file path text fs = (path, text) # fs"

definition path_join :: "string \<Rightarrow> string \<Rightarrow> string" where
  "path_join dir name = dir @ ''/'' @ name"

definition path_name :: "string \<Rightarrow> string" where
  "path_name p =
     (case rev (filter (\<lambda>c. c \<noteq> [] \<and> c \<noteq> ''.'') (split_str ''/'' p)) of
        [] \<Rightarrow> []
      | n # _ \<Rightarrow> n)"

definition path_stem :: "string \<Rightarrow> string" where
  "path_stem p =
     (let name = path_name p;
          ext = takeWhile (\<lambda>c. c \<noteq> CHR ''.'') (rev name);
          i = length name - length ext - 1
      in if CHR ''.'' \<in> set name \<and> 0 < i \<and> i < length name - 1 then take i name else name)"

definition csv_field :: "string \<Rightarrow> string" where
  "csv_field f =
     (if \<exists>c \<in> set f. c \<in> set [CHR '','', CHR 0x22, CHR 0x0D, CHR 0x0A]
      then [CHR 0x22] @ concat (map (\<lambda>c. if c = CHR 0x22 then [c, c] else [c]) f) @ [CHR 0x22]
      else f)"

definition csv_row :: "string list \<Rightarrow> string" where
  "csv_row row =
     (if row = [[]] then [CHR 0x22, CHR 0x22] else join '','' (map csv_field row))
     @ [CHR 0x0D, CHR 0x0A]"

definition csv_text :: "string list list \<Rightarrow> string" where
  "csv_text rows = concat (map csv_row rows)"

fun universal_newlines :: "string \<Rightarrow> string" where
  "universal_newlines [] = []"
| "universal_newlines [c] = [if c = CHR 0x0D then CHR 0x0A else c]"
| "universal_newlines (c # d # s) =
     (if c = CHR 0x0D \<and> d = CHR 0x0A then CHR 0x0A # universal_newlines s
      else if c = CHR 0x0D then CHR 0x0A # universal_newlines (d # s)
      else c # universal_newlines (d # s))"

fun text_lines_aux :: "string \<Rightarrow> string \<Rightarrow> string list" where
  "text_lines_aux cur [] = (if cur = [] then [] else [cur])"
| "text_lines_aux cur (c # s) =
     (if c = CHR 0x0A then (cur @ [c]) # text_lines_aux [] s
      else text_lines_aux (cur @ [c]) s)"

definition text_lines :: "string \<Rightarrow> string list" where
  "text_lines text = text_lines_aux [] (universal_newlines text)"

subsection \<open>TEM waveform descriptor: \<^verbatim>\<open>FileProcessor._generate_waveform_csv\<close>\<close>

definition utem_content :: "string \<Rightarrow> string \<Rightarrow> string list list" where
  "utem_content waveform_name base_freq =
     [[''Waveform Name'', waveform_name],
      [''BaseFrequency'', base_freq],
      [''Waveform Zero Time'', ''0.0000''],
      [''Scaled Time'', ''Current''],
      [''0.0000'', ''-1.000000''],
      [''0.0001'', ''1.000000''],
      [''0.5000'', ''1.000000'']]"

definition square50_content :: "string \<Rightarrow> string \<Rightarrow> string list list" where
  "square50_content waveform_name base_freq =
     [[''Waveform Name'', waveform_name],
      [''BaseFrequency'', base_freq],
      [''Waveform Zero Time'', ''0.2501''],
      [''Scaled Time'', ''Current''],
      [''0.0000'', ''0.000000''],
      [''0.0001'', ''1.000000''],
      [''0.2500'', ''1.000000''],
      [''0.2501'', ''0.000000''],
      [''0.5000'', ''0.000000'']]"

definition square100_content :: "string \<Rightarrow> string \<Rightarrow> string list list" where
  "square100_content waveform_name base_freq =
     [[''Waveform Name'', waveform_name],
      [''BaseFrequency'', base_freq],
      [''Waveform Zero Time'', ''0.0000''],
      [''Scaled Time'', ''Current''],
      [''0.0000'', ''-1.000000''],
      [''0.0001'', ''1.000000''],
      [''0.5000'', ''1.000000'']]"

definition duty_waveform_name :: "string \<Rightarrow> string \<Rightarrow> string" where
  "duty_waveform_name duty base_freq =
     (case py_float (strip duty) of
        Some duty_float \<Rightarrow>
          if \<bar>duty_float - 50\<bar> < 1 / 1000 then ''50_Square_'' @ base_freq
          else ''Square_'' @ base_freq
      | None \<Rightarrow> ''Square_'' @ base_freq)"

definition existing_content :: "string \<Rightarrow> string list list" where
  "existing_content text = map (\<lambda>line. split_str '','' (strip line)) (text_lines text)"

definition store_waveform :: "string \<Rightarrow> string \<Rightarrow> string list list \<Rightarrow> io \<Rightarrow> io" where
  "store_waveform output_dir filename content fs =
     (let output_path = path_join output_dir filename
      in case read_file fs output_path of
           Some text \<Rightarrow>
             if existing_content text = content then fs
             else write_file output_path (csv_text content) fs
         | None \<Rightarrow> write_file output_path (csv_text content) fs)"

definition generate_waveform_csv ::
  "header_data \<Rightarrow> string \<Rightarrow> io \<Rightarrow> (py_error + string option) \<times> io" where
  "generate_waveform_csv header output_dir fs =
     (case duty_cycle header of
        None \<Rightarrow> (Inl AttributeError, fs)
      | Some duty \<Rightarrow>
          (let base_freq = str_opt (base_frequency header);
               waveform_name = duty_waveform_name duty base_freq
           in if falsy (base_frequency header) then (Inr None, fs)
              else if tx_waveform header = ''UTEM'' then
                (Inr (Some (''UTEM_'' @ base_freq @ ''.csv'')),
                 store_waveform output_dir (''UTEM_'' @ base_freq @ ''.csv'')
                   (utem_content (''UTEM_'' @ base_freq) base_freq) fs)
              else if tx_waveform header = ''Undefined'' then
                (Inr (Some (waveform_name @ ''.csv'')),
                 store_waveform output_dir (waveform_name @ ''.csv'')
                   (if contains ''50_Square'' waveform_name
                    then square50_content waveform_name base_freq
                    else square100_content waveform_name base_freq) fs)
              else (Inr None, fs)))"

subsection \<open>TEM sampling descriptor: \<^verbatim>\<open>FileProcessor._generate_sampling_csv\<close>\<close>

definition dbdt_units :: "string list" where
  "dbdt_units =
     [''uV'', ''uV/A'', ''uV/Am2'', ''uV/m2'',
      ''nV'', ''nV/A'', ''nV/Am2'', ''nV/m2'',
      ''pV'', ''pV/A'', ''pV/Am2'', ''pV/m2'',
      ''nT/As'', ''nT/Asm2'',
      ''pT/s'', ''pT/As'', ''pT/Asm2'']"

definition b_field_units :: "string list" where
  "b_field_units =
     [''nT'', ''nT/A'', ''nT/Am2'', ''nT/m2'',
      ''pT'', ''pT/A'', ''pT/Am2'', ''pT/m2'',
      ''fT'', ''fT/A'', ''fT/Am2'', ''fT/m2'', ''ppm'', ''ppmHp'', ''ppt'', ''pptHp'',
      ''%Ht'', ''%'', ''ppmHz'', ''pptHz'',
      ''ppmHx'', ''pptHx'', ''ppmHt'', ''pptHt'',
      ''Ohm-m'', ''S/m'']"

definition determine_field_type :: "string option \<Rightarrow> string" where
  "determine_field_type u =
     (case u of
        None \<Rightarrow> ''b''
      | Some v \<Rightarrow> if v \<in> set dbdt_units then ''dbdt''
                  else if v \<in> set b_field_units then ''b'' else ''b'')"

definition generate_channel_colors :: "nat \<Rightarrow> (rat \<times> rat \<times> rat) list" where
  "generate_channel_colors n =
     map (\<lambda>i. (1 / 4 + of_nat i * (5 / 100), 3 / 4 - of_nat i * (5 / 100), 1 / 2)) [0..<n]"

definition sniff_time_unit :: "string list \<Rightarrow> string" where
  "sniff_time_unit hlines =
     (if \<exists>line \<in> set hlines.
           contains ''TIMESSTART(us)'' line \<or> contains ''TIMES(us)'' line
           \<or> contains ''TIMESEND(us)'' line
      then ''us'' else ''ms'')"

definition sampling_times :: "header_data \<Rightarrow> rat list \<times> rat list" where
  "sampling_times header =
     (if sniff_time_unit (header_lines header) = ''us''
      then (map (\<lambda>t. t / 1000) (times_start header), map (\<lambda>t. t / 1000) (times_end header))
      else (times_start header, times_end header))"

definition format_base_name :: "string \<Rightarrow> string option" where
  "format_base_name base_name =
     (if contains ''UTEM'' base_name then Some base_name
      else
        (let parts = split_str ''_'' base_name
         in if nth_opt parts 0 = Some ''50'' then
              (case nth_opt parts 2 of
                 None \<Rightarrow> None
               | Some p \<Rightarrow>
                   (case py_float p of
                      None \<Rightarrow> None
                    | Some freq \<Rightarrow> Some (''50_Square_'' @ fmt_fixed 3 freq)))
            else
              (case nth_opt parts 1 of
                 None \<Rightarrow> None
               | Some p \<Rightarrow>
                   (case py_float p of
                      None \<Rightarrow> None
                    | Some freq \<Rightarrow> Some (''Square_'' @ fmt_fixed 3 freq)))))"

definition channel_line :: "nat \<Rightarrow> rat \<Rightarrow> rat \<Rightarrow> string" where
  "channel_line i s e =
     (case generate_channel_colors (Suc i) ! i of
        (red, green, blue) \<Rightarrow>
          ''Ch'' @ show_nat (i + 1) @ '','' @ fmt_fixed 3 s @ '','' @ fmt_fixed 3 e @ '','' @
          fmt_fixed 6 red @ '','' @ fmt_fixed 6 green @ '','' @ fmt_fixed 6 blue @ '',2'' @
          [CHR 0x0A])"

fun channel_lines :: "nat \<Rightarrow> nat \<Rightarrow> rat list \<Rightarrow> rat list \<Rightarrow> string list" where
  "channel_lines i 0 ts te = []"
| "channel_lines i (Suc k) ts te =
     (case (nth_opt ts i, nth_opt te i) of
        (Some s, Some e) \<Rightarrow> channel_line i s e # channel_lines (Suc i) k ts te
      | _ \<Rightarrow> [])"

definition sampling_text ::
  "string \<Rightarrow> string option \<Rightarrow> nat \<Rightarrow> rat list \<Rightarrow> rat list \<Rightarrow> string list" where
  "sampling_text sampling_name u n ts te =
     [''Sampling Name,'' @ sampling_name @ [CHR 0x0A]] @
     (case (nth_opt ts 0, nth_opt te 0) of
        (Some s, Some e) \<Rightarrow>
          [''Primary Time Gate,'' @ fmt_fixed 3 s @ '','' @ fmt_fixed 3 e @ [CHR 0x0A],
           ''Field Type,'' @ determine_field_type u @ [CHR 0x0A],
           ''Channel Name,ChStart,ChEnd,Red,Green,Blue,LineWt'' @ [CHR 0x0A]]
          @ channel_lines 0 n ts te
      | _ \<Rightarrow> [])"

definition generate_sampling_csv ::
  "header_data \<Rightarrow> string \<Rightarrow> string \<Rightarrow> io \<Rightarrow> string option \<times> io" where
  "generate_sampling_csv header waveform_name output_dir fs =
     (case sampling_times header of
        (ts, te) \<Rightarrow>
          (case format_base_name (path_stem waveform_name) of
             None \<Rightarrow> (None, fs)
           | Some formatted_name \<Rightarrow>
               (case num_channels header of
                  None \<Rightarrow> (None, fs)
                | Some n \<Rightarrow>
                    (let sampling_name = formatted_name @ ''_'' @ show_nat n @ ''ch'';
                         filename = sampling_name @ ''.csv'';
                         out = sampling_text sampling_name (units header) n ts te;
                         fs' = write_file (path_join output_dir filename) (concat out) fs
                     in if length out = 4 + n then (Some filename, fs') else (None, fs')))))"

definition process_tem_file :: "string list \<Rightarrow> string \<Rightarrow> string \<Rightarrow> io \<Rightarrow> io" where
  "process_tem_file file_lines waveform_dir sampling_dir fs =
     (let header = parse_file_headers file_lines
      in case generate_waveform_csv header waveform_dir fs of
           (Inr (Some waveform_file), fs') \<Rightarrow>
             snd (generate_sampling_csv header waveform_file sampling_dir fs')
         | (_, fs') \<Rightarrow> fs')"

subsection \<open>PEM files: \<^verbatim>\<open>FileProcessor.parse_pem_file\<close> and the PEM generators\<close>

record pem_survey_params =
  survey_mode :: string
  survey_units :: string
  sync_type :: string
  time_base :: rat
  ramp_time :: int
  n_gates :: int
  n_readings :: int

record pem_scan =
  survey_params :: "pem_survey_params option"
  time_windows :: "rat list"
  found_time_window_section :: bool

definition parse_survey_params :: "string \<Rightarrow> py_error + pem_survey_params" where
  "parse_survey_params line =
     (let parts = split_ws (strip line)
      in case (nth_opt parts 0, nth_opt parts 1, nth_opt parts 2, nth_opt parts 3) of
           (Some p0, Some p1, Some p2, Some p3) \<Rightarrow>
             (case py_float p3 of
                None \<Rightarrow> Inl ValueError
              | Some tb \<Rightarrow>
                  (case nth_opt parts 4 of
                     None \<Rightarrow> Inl IndexError
                   | Some p4 \<Rightarrow>
                       (case py_int p4 of
                          None \<Rightarrow> Inl ValueError
                        | Some rt \<Rightarrow>
                            (case nth_opt parts 5 of
                               None \<Rightarrow> Inl IndexError
                             | Some p5 \<Rightarrow>
                                 (case py_int p5 of
                                    None \<Rightarrow> Inl ValueError
                                  | Some ng \<Rightarrow>
                                      (case nth_opt parts 6 of
                                         None \<Rightarrow> Inl IndexError
                                       | Some p6 \<Rightarrow>
                                           (case py_int p6 of
                                              None \<Rightarrow> Inl ValueError
                                            | Some nr \<Rightarrow>
                                                Inr \<lparr>survey_mode = p0, survey_units = p1,
                                                     sync_type = p2, time_base = tb,
                                                     ramp_time = rt, n_gates = ng,
                                                     n_readings = nr\<rparr>)))))))
         | _ \<Rightarrow> Inl IndexError)"

definition window_numbers :: "string \<Rightarrow> rat list option" where
  "window_numbers line =
     those (map py_float
              (filter (\<lambda>x. contains ''e'' (lower x) \<or> contains ''e-'' (lower x))
                      (split_ws line)))"

fun pem_loop :: "string list \<Rightarrow> pem_scan \<Rightarrow> py_error + pem_scan" where
  "pem_loop [] st = Inr st"
| "pem_loop (raw # rest) st =
     (let line = strip raw
      in if line = [] then pem_loop rest st
         else if survey_params st = None \<and> contains ''Metric'' line \<and> contains ''Cable'' line
         then
           (case parse_survey_params line of
              Inl e \<Rightarrow> Inl e
            | Inr sp \<Rightarrow> pem_loop rest (st\<lparr>survey_params := Some sp\<rparr>))
         else
           (let st' =
                  (if startswith line ''-'' \<and> contains ''e'' (lower line)
                      \<and> \<not> found_time_window_section st
                   then st\<lparr>found_time_window_section := True\<rparr> else st)
            in if found_time_window_section st' then
                 (if contains ''$'' line then Inr st'
                  else
                    (case window_numbers line of
                       Some vs \<Rightarrow> pem_loop rest (st'\<lparr>time_windows := time_windows st' @ vs\<rparr>)
                     | None \<Rightarrow> pem_loop rest st'))
               else pem_loop rest st'))"

definition parse_pem_file ::
  "string list \<Rightarrow> py_error + (rat \<times> rat \<times> pem_survey_params \<times> rat list)" where
  "parse_pem_file content =
     (case pem_loop content
             \<lparr>survey_params = None, time_windows = [], found_time_window_section = False\<rparr> of
        Inl e \<Rightarrow> Inl e
      | Inr st \<Rightarrow>
          (case survey_params st of
             None \<Rightarrow> Inl ValueError
           | Some sp \<Rightarrow>
               if 4 * time_base sp / 1000 = 0 then Inl ZeroDivisionError
               else Inr (1 / (4 * time_base sp / 1000), of_int (ramp_time sp) / 1000000,
                         sp, time_windows st)))"

definition pem_points :: "rat \<Rightarrow> (rat \<times> rat) list" where
  "pem_points ramp =
     [(0, 0),
      (2 / 100, 550671036 / 1000000000),
      (4 / 100, 798103482 / 1000000000),
      (6 / 100, 909282047 / 1000000000),
      (8 / 100, 959237796 / 1000000000),
      (1 / 10, 981684361 / 1000000000),
      (14 / 100, 996302136 / 1000000000),
      (16 / 100, 998338443 / 1000000000),
      (20 / 100, 1),
      (1 / 4 - ramp, 1),
      (1 / 4, 0),
      (1 / 2, 0)]"

definition pem_waveform_rows :: "rat \<Rightarrow> rat \<Rightarrow> string list list" where
  "pem_waveform_rows base_freq ramp =
     (let points = pem_points ramp;
          zero_time = (case filter (\<lambda>(t, a). a = 0) points of
                         [] \<Rightarrow> 1 / 4
                       | (t, a) # _ \<Rightarrow> t)
      in [[''Waveform Name'', ''Crone_15Hz''],
          [''Time Units'', ''scaled''],
          [''Base Frequency'', fmt_fixed 3 base_freq],
          [''Waveform Zero Time'', fmt_fixed 6 zero_time],
          [''Scaled Time'', ''Current'']]
         @ map (\<lambda>(t, c). [fmt_fixed 6 t, fmt_fixed 6 c]) points)"

definition generate_pem_waveform_csv :: "string \<Rightarrow> rat \<Rightarrow> rat \<Rightarrow> string \<Rightarrow> io \<Rightarrow> io" where
  "generate_pem_waveform_csv filename base_freq ramp output_file fs =
     write_file output_file (csv_text (pem_waveform_rows base_freq ramp)) fs"

definition pem_channel_row :: "rat list \<Rightarrow> nat \<Rightarrow> string list" where
  "pem_channel_row tw i =
     (let ch_num = i + 1;
          start_time = (if i = 0 then tw ! 2 else tw ! (i + 2)) * 1000;
          end_time = tw ! (i + 3) * 1000;
          k = rat_of_nat ch_num;
          rgb = (if ch_num \<le> 12 then
                   (fmt_fixed 6 (996094 / 1000000),
                    fmt_fixed 6 (144533 / 1000000 + (k - 1) * (708 / 10000)),
                    fmt_fixed 6 (652326 / 1000000 - (k - 1) * (545 / 10000)))
                 else if ch_num \<le> 15 then
                   (fmt_fixed 6 (697813 / 1000000 - (k - 13) * (2988 / 10000)),
                    fmt_fixed 6 (996094 / 1000000),
                    fmt_fixed 6 0)
                 else
                   (fmt_fixed 6 0,
                    fmt_fixed 6 (996094 / 1000000 - (k - 16) * (988 / 10000)),
                    fmt_fixed 6 (198521 / 1000000 + (k - 16) * (2988 / 10000))))
      in case rgb of
           (red, green, blue) \<Rightarrow>
             [''Ch'' @ show_nat ch_num, fmt_fixed 3 start_time, fmt_fixed 3 end_time,
              red, green, blue, ''2''])"

definition pem_channel_rows :: "rat list \<Rightarrow> string list list" where
  "pem_channel_rows tw =
     (if length tw > 3 then map (pem_channel_row tw) [0..<length tw - 3] else [])"

definition pem_sampling_rows :: "rat list \<Rightarrow> string list list" where
  "pem_sampling_rows tw =
     [[''Sampling Name'', ''Crone_15Hz_21ch'']] @
     [if length tw \<ge> 2
      then [''Primary Time Gate'', fmt_fixed 3 (tw ! 0 * 1000), fmt_fixed 3 (tw ! 1 * 1000)]
      else [''Primary Time Gate'', ''-0.2'', ''-0.1'']] @
     [[''Field Type'', ''dBdT''],
      [''Channel Name'', ''ChStart'', ''ChEnd'', ''Red'', ''Green'', ''Blue'', ''LineWt'']] @
     pem_channel_rows tw @
     (if length tw \<ge> 2
      then [[''PP'', fmt_fixed 3 (tw ! 0 * 1000), fmt_fixed 3 (tw ! 1 * 1000),
             ''0'', ''0.299774'', ''0.996094'', ''2'']]
      else [])"

definition generate_pem_sampling_csv :: "string \<Rightarrow> rat list \<Rightarrow> string \<Rightarrow> io \<Rightarrow> io" where
  "generate_pem_sampling_csv filename tw output_file fs =
     write_file output_file (csv_text (pem_sampling_rows tw)) fs"

definition show_int :: "int \<Rightarrow> string" where
  "show_int i = (if i < 0 then ''-'' @ show_digits (- i) else show_digits i)"

definition process_pem_file ::
  "string \<Rightarrow> string list \<Rightarrow> string \<Rightarrow> string \<Rightarrow> io \<Rightarrow> py_error option \<times> io" where
  "process_pem_file file_path content waveform_dir sampling_dir fs =
     (case parse_pem_file content of
        Inl e \<Rightarrow> (Some e, fs)
      | Inr (base_freq, ramp, sp, tw) \<Rightarrow>
          (let base_name = path_stem file_path;
               waveform_file = ''Crone_'' @ fmt_fixed 0 base_freq @ ''Hz.csv'';
               sampling_file = ''Crone_'' @ fmt_fixed 0 base_freq @ ''Hz_''
                               @ show_int (int (length tw) - 3) @ ''ch.csv'';
               fs1 = generate_pem_waveform_csv base_name base_freq ramp
                       (path_join waveform_dir waveform_file) fs;
               fs2 = generate_pem_sampling_csv base_name tw
                       (path_join sampling_dir sampling_file) fs1
           in (None, fs2)))"

subsection \<open>MCG files: \<^verbatim>\<open>parse_mcg_file\<close>\<close>

fun after_first :: "string \<Rightarrow> string \<Rightarrow> string option" where
  "after_first sub [] = (if sub = [] then Some [] else None)"
| "after_first sub (c # s) =
     (if startswith (c # s) sub then Some (drop (length sub) (c # s)) else after_first sub s)"

fun before_first :: "string \<Rightarrow> string \<Rightarrow> string option" where
  "before_first sub [] = (if sub = [] then Some [] else None)"
| "before_first sub (c # s) =
     (if startswith (c # s) sub then Some []
      else map_option (\<lambda>r. c # r) (before_first sub s))"

definition search_block :: "string \<Rightarrow> string \<Rightarrow> string \<Rightarrow> string option" where
  "search_block start_marker end_marker content =
     (case after_first (start_marker @ [CHR 0x0A]) content of
        None \<Rightarrow> None
      | Some r1 \<Rightarrow>
          (case after_first [CHR 0x0A] r1 of
             None \<Rightarrow> None
           | Some r2 \<Rightarrow> before_first end_marker r2))"

definition match_key_value :: "string \<Rightarrow> (char \<Rightarrow> bool) \<Rightarrow> string \<Rightarrow> string option" where
  "match_key_value key cls s =
     (if startswith s key then
        (case dropWhile is_space (drop (length key) s) of
           [] \<Rightarrow> None
         | c # r \<Rightarrow>
             if c = CHR '':'' then
               (let g = takeWhile cls (dropWhile is_space r)
                in if g = [] then None else Some g)
             else None)
      else None)"

fun search_key_value :: "string \<Rightarrow> (char \<Rightarrow> bool) \<Rightarrow> string \<Rightarrow> string option" where
  "search_key_value key cls [] = None"
| "search_key_value key cls (c # s) =
     (case match_key_value key cls (c # s) of
        Some g \<Rightarrow> Some g
      | None \<Rightarrow> search_key_value key cls s)"

fun first_unit_def :: "string \<Rightarrow> string option" where
  "first_unit_def [] = None"
| "first_unit_def (c # s) =
     (if is_digit c \<and> startswith (dropWhile is_digit (c # s)) ''=''
      then Some (takeWhile (\<lambda>x. x \<noteq> CHR 0x0A) (c # s))
      else first_unit_def s)"

definition match_unit_types :: "string \<Rightarrow> string option" where
  "match_unit_types s =
     (if startswith s ''Unit Types'' then
        (case dropWhile is_space (drop (length ''Unit Types'') s) of
           [] \<Rightarrow> None
         | c # r \<Rightarrow> if c = CHR '':'' then first_unit_def r else None)
      else None)"

fun search_unit_types :: "string \<Rightarrow> string option" where
  "search_unit_types [] = None"
| "search_unit_types (c # s) =
     (case match_unit_types (c # s) of
        Some g \<Rightarrow> Some g
      | None \<Rightarrow> search_unit_types s)"

record mcg_matches =
  m_waveform_points :: "string option"
  m_base_frequency :: "string option"
  m_timing_mark :: "string option"
  m_channel_times :: "string option"
  m_units :: "string option"
  m_unit_types :: "string option"

definition mcg_search :: "string \<Rightarrow> mcg_matches" where
  "mcg_search content =
     \<lparr>m_waveform_points =
        search_block ''START OF STANDARD WAVEFORM'' ''END OF STANDARD WAVEFORM'' content,
      m_base_frequency =
        search_key_value ''Base Frequency (Hz)'' (\<lambda>c. is_digit c \<or> c = CHR ''.'') content,
      m_timing_mark =
        search_key_value ''Waveform Timing Mark (s)'' (\<lambda>c. is_digit c \<or> c = CHR ''.'') content,
      m_channel_times =
        search_block ''START OF CHANNEL TIMES'' ''END OF CHANNEL TIMES'' content,
      m_units = search_key_value ''Units'' is_digit content,
      m_unit_types = search_unit_types content\<rparr>"

definition parse_pair :: "string list \<Rightarrow> py_error + (rat \<times> rat)" where
  "parse_pair toks =
     (case nth_opt toks 1 of
        None \<Rightarrow> Inl IndexError
      | Some a \<Rightarrow>
          (case py_float a of
             None \<Rightarrow> Inl ValueError
           | Some x \<Rightarrow>
               (case nth_opt toks 2 of
                  None \<Rightarrow> Inl IndexError
                | Some b \<Rightarrow>
                    (case py_float b of
                       None \<Rightarrow> Inl ValueError
                     | Some y \<Rightarrow> Inr (x, y)))))"

fun parse_pairs :: "string list list \<Rightarrow> py_error + (rat \<times> rat) list" where
  "parse_pairs [] = Inr []"
| "parse_pairs (l # ls) =
     (case parse_pair l of
        Inl e \<Rightarrow> Inl e
      | Inr p \<Rightarrow> (case parse_pairs ls of Inl e \<Rightarrow> Inl e | Inr ps \<Rightarrow> Inr (p # ps)))"

definition block_rows :: "string \<Rightarrow> string list list" where
  "block_rows block = map (\<lambda>line. split_ws (strip line)) (split_str [CHR 0x0A] (strip block))"

fun scale_points :: "rat \<Rightarrow> (rat \<times> rat) list \<Rightarrow> py_error + (rat \<times> rat) list" where
  "scale_points max_time [] = Inr []"
| "scale_points max_time ((t, amp) # ps) =
     (if t \<noteq> 0 \<and> max_time = 0 then Inl ZeroDivisionError
      else (case scale_points max_time ps of
              Inl e \<Rightarrow> Inl e
            | Inr qs \<Rightarrow> Inr ((if t \<noteq> 0 then (1 / 2) * t / max_time else 0, amp) # qs)))"

fun parse_unit_map :: "string list \<Rightarrow> (int \<times> string) list \<Rightarrow> py_error + (int \<times> string) list"
  where
  "parse_unit_map [] unit_map = Inr unit_map"
| "parse_unit_map (unit_def # rest) unit_map =
     (case split_str ''='' (strip unit_def) of
        [num, unit] \<Rightarrow>
          (case py_int num of
             None \<Rightarrow> Inl ValueError
           | Some n \<Rightarrow> parse_unit_map rest ((n, strip unit) # unit_map))
      | _ \<Rightarrow> Inl ValueError)"

definition max_point_time :: "(rat \<times> rat) list \<Rightarrow> py_error + rat" where
  "max_point_time points =
     (case points of
        [] \<Rightarrow> Inl ValueError
      | p # ps \<Rightarrow> Inr (fold max (map fst ps) (fst p)))"

definition os_path_join :: "string \<Rightarrow> string \<Rightarrow> string" where
  "os_path_join a b =
     (if startswith b ''/'' then b
      else if a = [] \<or> last a = CHR ''/'' then a @ b
      else a @ ''/'' @ b)"

definition mcg_waveform_path :: "string \<Rightarrow> string \<Rightarrow> string" where
  "mcg_waveform_path export_dir base_filename =
     os_path_join (os_path_join (os_path_join export_dir ''Provus_Options'') ''Waveforms'')
       (base_filename @ ''.csv'')"

definition mcg_sampling_path :: "string \<Rightarrow> string \<Rightarrow> string" where
  "mcg_sampling_path export_dir sampling_name =
     os_path_join
       (os_path_join (os_path_join export_dir ''Provus_Options'') ''Channel_Sampling_Schemes'')
       (sampling_name @ ''.csv'')"

definition mcg_waveform_rows ::
  "string \<Rightarrow> mcg_matches \<Rightarrow> (rat \<times> rat) list \<Rightarrow> string list list \<times> py_error option" where
  "mcg_waveform_rows base_filename m scaled_points =
     (case m_base_frequency m of
        None \<Rightarrow> ([[''Waveform Name'', base_filename]], Some KeyError)
      | Some bf \<Rightarrow>
          (case m_timing_mark m of
             None \<Rightarrow> ([[''Waveform Name'', base_filename], [''Base Frequency'', bf]],
                       Some KeyError)
           | Some tm \<Rightarrow>
               ([[''Waveform Name'', base_filename],
                 [''Base Frequency'', bf],
                 [''Waveform Zero Time'', tm],
                 [''Scaled Time'', ''Current'']]
                @ map (\<lambda>(t, amp). [fmt_fixed 6 t, fmt_fixed 6 amp]) scaled_points, None)))"

definition mcg_channel_rows :: "(rat \<times> rat) list \<Rightarrow> string list list" where
  "mcg_channel_rows channels =
     map (\<lambda>(i, (s, e)).
            [''Ch'' @ show_nat i, fmt_fixed 3 s, fmt_fixed 3 e,
             fmt_fixed 2 (1 / 4 + (rat_of_nat i - 1) * (5 / 100)),
             fmt_fixed 2 (3 / 4 - (rat_of_nat i - 1) * (5 / 100)),
             ''0.50'', ''2''])
         (zip [1..<Suc (length channels)] channels)"

definition mcg_channels :: "mcg_matches \<Rightarrow> py_error + (rat \<times> rat) list" where
  "mcg_channels m =
     (case m_channel_times m of
        None \<Rightarrow> Inl KeyError
      | Some block \<Rightarrow>
          (case parse_pairs (block_rows block) of
             Inl e \<Rightarrow> Inl e
           | Inr secs \<Rightarrow> Inr (map (\<lambda>(s, e). (s * 1000, e * 1000)) secs)))"

definition mcg_field_type :: "mcg_matches \<Rightarrow> py_error + string" where
  "mcg_field_type m =
     (case m_units m of
        None \<Rightarrow> Inl KeyError
      | Some us \<Rightarrow>
          (case py_int us of
             None \<Rightarrow> Inl ValueError
           | Some unit_num \<Rightarrow>
               (case m_unit_types m of
                  None \<Rightarrow> Inl KeyError
                | Some ut \<Rightarrow>
                    (case parse_unit_map (split_str '','' ut) [] of
                       Inl e \<Rightarrow> Inl e
                     | Inr unit_map \<Rightarrow>
                         (case map_of unit_map unit_num of
                            None \<Rightarrow> Inl KeyError
                          | Some unit \<Rightarrow>
                              Inr (if unit \<in> set [''uV'', ''nV'', ''pV'', ''nT/s'', ''pT/s'']
                                   then ''dbdt'' else ''b''))))))"

definition mcg_sampling_rows :: "string \<Rightarrow> string \<Rightarrow> (rat \<times> rat) list \<Rightarrow> string list list" where
  "mcg_sampling_rows sampling_name field_type channels =
     (case channels of
        [] \<Rightarrow> [[''Sampling Name'', sampling_name]]
      | (s0, e0) # _ \<Rightarrow>
          [[''Sampling Name'', sampling_name],
           [''Primary Time Gate'', fmt_fixed 3 s0, fmt_fixed 3 e0],
           [''Field Type'', field_type],
           [''Channel Name'', ''ChStart'', ''ChEnd'', ''Red'', ''Green'', ''Blue'', ''LineWt'']]
          @ mcg_channel_rows channels)"

definition mcg_sampling ::
  "string \<Rightarrow> string \<Rightarrow> mcg_matches \<Rightarrow> io \<Rightarrow> py_error option \<times> io" where
  "mcg_sampling base_filename export_dir m fs =
     (case mcg_channels m of
        Inl e \<Rightarrow> (Some e, fs)
      | Inr channels \<Rightarrow>
          (case mcg_field_type m of
             Inl e \<Rightarrow> (Some e, fs)
           | Inr field_type \<Rightarrow>
               (let sampling_name = base_filename @ ''_'' @ show_nat (length channels) @ ''ch''
                in (if channels = [] then Some IndexError else None,
                    write_file (mcg_sampling_path export_dir sampling_name)
                      (csv_text (mcg_sampling_rows sampling_name field_type channels)) fs))))"

definition parse_mcg_file :: "string \<Rightarrow> string \<Rightarrow> string \<Rightarrow> io \<Rightarrow> py_error option \<times> io" where
  "parse_mcg_file mcg_path content export_dir fs =
     (let base_filename = lower (path_stem mcg_path);
          m = mcg_search content
      in case m_waveform_points m of
           None \<Rightarrow> (Some KeyError, fs)
         | Some block \<Rightarrow>
             (case parse_pairs (block_rows block) of
                Inl e \<Rightarrow> (Some e, fs)
              | Inr waveform_points \<Rightarrow>
                  (case max_point_time waveform_points of
                     Inl e \<Rightarrow> (Some e, fs)
                   | Inr mt \<Rightarrow>
                       (case scale_points mt waveform_points of
                          Inl e \<Rightarrow> (Some e, fs)
                        | Inr scaled_points \<Rightarrow>
                            (case mcg_waveform_rows base_filename m scaled_points of
                               (rows, Some e) \<Rightarrow>
                                 (Some e,
                                  write_file (mcg_waveform_path export_dir base_filename)
                                    (csv_text rows) fs)
                             | (rows, None) \<Rightarrow>
                                 mcg_sampling base_filename export_dir m
                                   (write_file (mcg_waveform_path export_dir base_filename)
                                      (csv_text rows) fs))))))"

subsection \<open>Example inputs\<close>

definition pem_example :: "string list" where
  "pem_example =
     [''Crone PEM survey'',
      ''Metric nT/s Cable 16.66 1500 20 2'',
      ''-2.0e-04 -1.0e-04 1.0e-04 2.0e-04'',
      ''4.0e-04 8.0e-04'',
      ''$'']"

definition mcg_without_channel_times :: string where
  "mcg_without_channel_times =
     ''Base Frequency (Hz) : 30.0\<newline>'' @
     ''Waveform Timing Mark (s): 0.0\<newline>'' @
     ''Units: 2\<newline>'' @
     ''Unit Types: 1=nT, 2=nT/s\<newline>'' @
     ''START OF STANDARD WAVEFORM\<newline>'' @
     ''N Time Amp\<newline>'' @
     ''1 0.0 0.0\<newline>'' @
     ''2 0.005 1.0\<newline>'' @
     ''3 0.01 0.0\<newline>'' @
     ''END OF STANDARD WAVEFORM\<newline>''"

definition mcg_without_waveform :: string where
  "mcg_without_waveform =
     ''Base Frequency (Hz) : 30.0\<newline>'' @
     ''Waveform Timing Mark (s): 0.0\<newline>'' @
     ''Units: 2\<newline>'' @
     ''Unit Types: 1=nT, 2=nT/s\<newline>'' @
     ''START OF CHANNEL TIMES\<newline>'' @
     ''N Start End\<newline>'' @
     ''1 0.0001 0.0002\<newline>'' @
     ''2 0.0002 0.0004\<newline>'' @
     ''END OF CHANNEL TIMES\<newline>''"

section \<open>Properties\<close>

subsection \<open>Substrings and stripping\<close>

lemma startswith_iff: "startswith s p \<longleftrightarrow> (\<exists>r. s = p @ r)"
  by (induction s p rule: startswith.induct) auto

lemma contains_iff: "contains sub s \<longleftrightarrow> (\<exists>pre post. s = pre @ sub @ post)"
proof (induction s)
  case Nil
  then show ?case by auto
next
  case (Cons c s)
  show ?case
  proof
    assume "contains sub (c # s)"
    then consider "startswith (c # s) sub" | "contains sub s" by auto
    then show "\<exists>pre post. c # s = pre @ sub @ post"
    proof cases
      case 1
      then obtain r where "c # s = sub @ r" by (auto simp: startswith_iff)
      then have "c # s = [] @ sub @ r" by simp
      then show ?thesis by blast
    next
      case 2
      then obtain pre post where "s = pre @ sub @ post" using Cons.IH by auto
      then have "c # s = (c # pre) @ sub @ post" by simp
      then show ?thesis by blast
    qed
  next
    assume "\<exists>pre post. c # s = pre @ sub @ post"
    then obtain pre post where eq: "c # s = pre @ sub @ post" by auto
    show "contains sub (c # s)"
    proof (cases pre)
      case Nil
      then have "startswith (c # s) sub" using eq by (auto simp: startswith_iff)
      then show ?thesis by simp
    next
      case (Cons a pre')
      then have "s = pre' @ sub @ post" using eq by simp
      then have "contains sub s" using Cons.IH by blast
      then show ?thesis by simp
    qed
  qed
qed

lemma strip_infix: "\<exists>a b. l = a @ strip l @ b"
proof -
  let ?m = "dropWhile is_space l"
  have 1: "l = takeWhile is_space l @ ?m" by simp
  have "rev ?m = takeWhile is_space (rev ?m) @ dropWhile is_space (rev ?m)" by simp
  then have "?m = rev (dropWhile is_space (rev ?m)) @ rev (takeWhile is_space (rev ?m))"
    by (metis rev_append rev_rev_ident)
  then have "?m = strip l @ rev (takeWhile is_space (rev ?m))" by (simp add: strip_def)
  with 1 have "l = takeWhile is_space l @ strip l @ rev (takeWhile is_space (rev ?m))"
    by metis
  then show ?thesis by blast
qed

lemma contains_strip: "contains sub (strip l) \<Longrightarrow> contains sub l"
proof -
  assume "contains sub (strip l)"
  then obtain pre post where s: "strip l = pre @ sub @ post" by (auto simp: contains_iff)
  obtain a b where "l = a @ strip l @ b" using strip_infix by blast
  then have "l = (a @ pre) @ sub @ (post @ b)" using s by simp
  then show ?thesis unfolding contains_iff by blast
qed

lemma pem_loop_no_survey:
  assumes "\<forall>l \<in> set content. \<not> (contains ''Metric'' l \<and> contains ''Cable'' l)"
    and "survey_params st = None"
  shows "\<exists>st'. pem_loop content st = Inr st' \<and> survey_params st' = None"
  using assms
proof (induction content arbitrary: st)
  case Nil
  then show ?case by simp
next
  case (Cons raw rest)
  have no: "\<not> (contains ''Metric'' (strip raw) \<and> contains ''Cable'' (strip raw))"
    using Cons.prems(1) contains_strip by auto
  have rest: "\<forall>l \<in> set rest. \<not> (contains ''Metric'' l \<and> contains ''Cable'' l)"
    using Cons.prems(1) by simp
  have step: "\<And>s. survey_params s = None \<Longrightarrow>
      \<exists>st'. pem_loop rest s = Inr st' \<and> survey_params st' = None"
    using Cons.IH rest by blast
  show ?case
    using no Cons.prems(2) step
    by (auto simp: Let_def split: option.splits)
qed

subsection \<open>PEM: the survey-parameter line is required\<close>

text \<open>
  Claim C8. A PEM input in which no line holds both \<open>Metric\<close> and \<open>Cable\<close> makes
  \<open>parse_pem_file\<close> raise \<open>ValueError\<close>: no survey parameters are returned, and the
  caller \<open>process_pem_file\<close> writes nothing, so the file system is unchanged.
\<close>

theorem pem_missing_survey_line_fatal:
  assumes "\<forall>l \<in> set content. \<not> (contains ''Metric'' l \<and> contains ''Cable'' l)"
  shows "parse_pem_file content = Inl ValueError
       \<and> process_pem_file file_path content waveform_dir sampling_dir fs = (Some ValueError, fs)"
proof -
  obtain st' where "pem_loop content
      \<lparr>survey_params = None, time_windows = [], found_time_window_section = False\<rparr> = Inr st'"
      "survey_params st' = None"
    using pem_loop_no_survey [OF assms, of "\<lparr>survey_params = None, time_windows = [], found_time_window_section = False\<rparr>"]
    by auto
  then have "parse_pem_file content = Inl ValueError"
    by (simp add: parse_pem_file_def)
  then show ?thesis by (simp add: process_pem_file_def)
qed

theorem pem_missing_survey_line_fatal_witness:
  "parse_pem_file [''Crone PEM'', ''Metric nT/s Crystal 16.66 1500 20 2'',
       ''-2.0e-04 -1.0e-04 1.0e-04 2.0e-04'', ''$''] = Inl ValueError
   \<and> process_pem_file ''line1.PEM'' [''Crone PEM'', ''Metric nT/s Crystal 16.66 1500 20 2'',
       ''-2.0e-04 -1.0e-04 1.0e-04 2.0e-04'', ''$''] ''W'' ''S'' [] = (Some ValueError, [])"
proof -
  have h: "\<forall>l \<in> set [''Crone PEM'', ''Metric nT/s Crystal 16.66 1500 20 2'',
       ''-2.0e-04 -1.0e-04 1.0e-04 2.0e-04'', ''$'']. \<not> (contains ''Metric'' l \<and> contains ''Cable'' l)"
    by simp
  show ?thesis using pem_missing_survey_line_fatal [OF h] by blast
qed

subsection \<open>PEM: channel rows of the sampling descriptor\<close>







subsection \<open>PEM: fixed descriptor names\<close>

lemma csv_text_Cons: "csv_text (r # rs) = csv_row r @ csv_text rs"
  by (simp add: csv_text_def)

lemma pem_waveform_rows_hd:
  "\<exists>rest. pem_waveform_rows base_freq ramp = [''Waveform Name'', ''Crone_15Hz''] # rest"
  by (simp add: pem_waveform_rows_def Let_def)

lemma pem_sampling_rows_hd:
  "\<exists>rest. pem_sampling_rows tw = [''Sampling Name'', ''Crone_15Hz_21ch''] # rest"
  by (simp add: pem_sampling_rows_def)

lemma csv_row_waveform_name:
  "csv_row [''Waveform Name'', ''Crone_15Hz''] = ''Waveform Name,Crone_15Hz'' @ [CHR 0x0D, CHR 0x0A]"
  by (simp add: csv_row_def csv_field_def)

lemma csv_row_sampling_name:
  "csv_row [''Sampling Name'', ''Crone_15Hz_21ch'']
     = ''Sampling Name,Crone_15Hz_21ch'' @ [CHR 0x0D, CHR 0x0A]"
  by (simp add: csv_row_def csv_field_def)

text \<open>
  Claim C10. Whenever a PEM input parses, the pipeline writes a waveform CSV whose first
  record is \<open>Waveform Name,Crone_15Hz\<close> and a sampling CSV whose first record is
  \<open>Sampling Name,Crone_15Hz_21ch\<close>, whatever the base frequency, the ramp time and the
  time windows (and so the number of channel rows) are.
\<close>

theorem pem_fixed_names:
  assumes "parse_pem_file content = Inr (base_freq, ramp, sp, tw)"
  shows "\<exists>wpath spath wrest srest.
           process_pem_file file_path content waveform_dir sampling_dir fs
             = (None,
                (spath, ''Sampling Name,Crone_15Hz_21ch'' @ [CHR 0x0D, CHR 0x0A] @ srest)
                # (wpath, ''Waveform Name,Crone_15Hz'' @ [CHR 0x0D, CHR 0x0A] @ wrest) # fs)
         \<and> hd (pem_waveform_rows base_freq ramp) = [''Waveform Name'', ''Crone_15Hz'']
         \<and> hd (pem_sampling_rows tw) = [''Sampling Name'', ''Crone_15Hz_21ch'']"
proof -
  obtain wr where w: "pem_waveform_rows base_freq ramp = [''Waveform Name'', ''Crone_15Hz''] # wr"
    using pem_waveform_rows_hd by blast
  obtain sr where s: "pem_sampling_rows tw = [''Sampling Name'', ''Crone_15Hz_21ch''] # sr"
    using pem_sampling_rows_hd by blast
  have wt: "csv_text (pem_waveform_rows base_freq ramp)
      = ''Waveform Name,Crone_15Hz'' @ [CHR 0x0D, CHR 0x0A] @ csv_text wr"
    unfolding w csv_text_Cons csv_row_waveform_name by simp
  have st: "csv_text (pem_sampling_rows tw)
      = ''Sampling Name,Crone_15Hz_21ch'' @ [CHR 0x0D, CHR 0x0A] @ csv_text sr"
    unfolding s csv_text_Cons csv_row_sampling_name by simp
  have "process_pem_file file_path content waveform_dir sampling_dir fs
      = (None,
         (path_join sampling_dir (''Crone_'' @ fmt_fixed 0 base_freq @ ''Hz_''
                               @ show_int (int (length tw) - 3) @ ''ch.csv''),
          ''Sampling Name,Crone_15Hz_21ch'' @ [CHR 0x0D, CHR 0x0A] @ csv_text sr)
         # (path_join waveform_dir (''Crone_'' @ fmt_fixed 0 base_freq @ ''Hz.csv''),
            ''Waveform Name,Crone_15Hz'' @ [CHR 0x0D, CHR 0x0A] @ csv_text wr) # fs)"
    using assms
    by (simp add: process_pem_file_def Let_def generate_pem_waveform_csv_def
        generate_pem_sampling_csv_def write_file_def wt st)
  then show ?thesis using w s by simp
qed

theorem pem_fixed_names_witness:
  "parse_pem_file pem_example
     = Inr (12500 / 833, 3 / 2000,
            \<lparr>survey_mode = ''Metric'', survey_units = ''nT/s'', sync_type = ''Cable'',
             time_base = 833 / 50, ramp_time = 1500, n_gates = 20, n_readings = 2\<rparr>,
            [- (1 / 5000), - (1 / 10000), 1 / 10000, 1 / 5000, 1 / 2500, 1 / 1250])
   \<and> (\<exists>wpath spath wrest srest.
          process_pem_file ''line1.PEM'' pem_example ''W'' ''S'' []
            = (None,
               [(spath, ''Sampling Name,Crone_15Hz_21ch'' @ [CHR 0x0D, CHR 0x0A] @ srest),
                (wpath, ''Waveform Name,Crone_15Hz'' @ [CHR 0x0D, CHR 0x0A] @ wrest)]))"
proof -
  have h: "parse_pem_file pem_example
     = Inr (12500 / 833, 3 / 2000,
            \<lparr>survey_mode = ''Metric'', survey_units = ''nT/s'', sync_type = ''Cable'',
             time_base = 833 / 50, ramp_time = 1500, n_gates = 20, n_readings = 2\<rparr>,
            [- (1 / 5000), - (1 / 10000), 1 / 10000, 1 / 5000, 1 / 2500, 1 / 1250])"
    by code_simp
  show ?thesis
    using h pem_fixed_names [OF h, of "''line1.PEM''" "''W''" "''S''" "[]"] by blast
qed

subsection \<open>TEM: reconciliation of TIMES and TIMESWIDTH\<close>

lemma resolve_duty_cycle_fields [simp]:
  "times_start (resolve_duty_cycle r) = times_start r"
  "times_end (resolve_duty_cycle r) = times_end r"
  "num_channels (resolve_duty_cycle r) = num_channels r"
  "header_lines (resolve_duty_cycle r) = header_lines r"
  by (simp_all add: resolve_duty_cycle_def)

lemma resolve_times_paired:
  assumes "paired_usable st"
  shows "times_start (resolve_times st)
           = map (\<lambda>(t, w). t - w)
               (zip (to_ms (current_unit st) (opt_list (sc_times st)))
                    (to_ms (current_unit st) (opt_list (sc_times_width st))))"
    and "times_end (resolve_times st)
           = map (\<lambda>(t, w). t + w)
               (zip (to_ms (current_unit st) (opt_list (sc_times st)))
                    (to_ms (current_unit st) (opt_list (sc_times_width st))))"
    and "num_channels (resolve_times st) = Some (length (opt_list (sc_times st)))"
  using assms by (simp_all add: resolve_times_def Let_def to_ms_def)

lemma resolve_times_unpaired:
  "\<not> paired_usable st \<Longrightarrow> resolve_times st = results st"
  by (simp add: resolve_times_def)



subsection \<open>TEM: explicit TIMESSTART and TIMESEND directives\<close>

lemma set_header_field_times [simp]:
  "times_start (set_header_field k v r) = times_start r"
  "times_end (set_header_field k v r) = times_end r"
  "num_channels (set_header_field k v r) = num_channels r"
  "header_lines (set_header_field k v r) = header_lines r"
  by (simp_all add: set_header_field_def)

lemma process_part_times [simp]:
  "times_start (process_part p r) = times_start r"
  "times_end (process_part p r) = times_end r"
  "num_channels (process_part p r) = num_channels r"
  "header_lines (process_part p r) = header_lines r"
  by (simp_all add: process_part_def split: prod.splits)

lemma fold_process_part_times [simp]:
  "times_start (fold process_part ps r) = times_start r"
  "times_end (fold process_part ps r) = times_end r"
  "num_channels (fold process_part ps r) = num_channels r"
  "header_lines (fold process_part ps r) = header_lines r"
  by (induction ps arbitrary: r) simp_all

lemma process_line_sets_start:
  assumes "contains ''/TIMESSTART'' (strip raw)"
    and "explicit_values ''/TIMESSTART'' (strip raw) = Some xs"
  shows "times_start (results (process_line raw st)) = xs"
proof -
  have "strip raw \<noteq> []" using assms(1) by auto
  then show ?thesis
    using assms by (simp add: process_line_def process_directives_def Let_def)
qed

lemma process_line_keeps_start:
  assumes "\<not> contains ''/TIMESSTART'' (strip raw)"
  shows "times_start (results (process_line raw st)) = times_start (results st)"
  using assms
  by (simp add: process_line_def process_directives_def Let_def split: option.splits)

lemma process_line_sets_end:
  assumes "\<not> contains ''/TIMESSTART'' (strip raw)"
    and "contains ''/TIMESEND'' (strip raw)"
    and "explicit_values ''/TIMESEND'' (strip raw) = Some ys"
  shows "times_end (results (process_line raw st)) = ys
       \<and> num_channels (results (process_line raw st)) = Some (length ys)"
proof -
  have "strip raw \<noteq> []" using assms(2) by auto
  then show ?thesis
    using assms by (simp add: process_line_def process_directives_def Let_def)
qed

lemma process_line_keeps_end:
  assumes "\<not> contains ''/TIMESEND'' (strip raw)"
  shows "times_end (results (process_line raw st)) = times_end (results st)
       \<and> num_channels (results (process_line raw st)) = num_channels (results st)"
  using assms
  by (simp add: process_line_def process_directives_def Let_def split: option.splits)

lemma fold_keeps_start:
  assumes "\<forall>l \<in> set post. \<not> contains ''/TIMESSTART'' (strip l)"
  shows "times_start (results (fold process_line post st)) = times_start (results st)"
  using assms by (induction post arbitrary: st) (simp_all add: process_line_keeps_start)

lemma fold_keeps_end:
  assumes "\<forall>l \<in> set post. \<not> contains ''/TIMESEND'' (strip l)"
  shows "times_end (results (fold process_line post st)) = times_end (results st)
       \<and> num_channels (results (fold process_line post st)) = num_channels (results st)"
  using assms by (induction post arbitrary: st) (simp_all add: process_line_keeps_end)

lemma scan_last_start:
  assumes "contains ''/TIMESSTART'' (strip ls)"
    and "explicit_values ''/TIMESSTART'' (strip ls) = Some xs"
    and "\<forall>l \<in> set post. \<not> contains ''/TIMESSTART'' (strip l)"
  shows "times_start (results (scan_lines (pre @ ls # post))) = xs"
  using assms by (simp add: scan_lines_def fold_keeps_start process_line_sets_start)

lemma scan_last_end:
  assumes "\<not> contains ''/TIMESSTART'' (strip le)"
    and "contains ''/TIMESEND'' (strip le)"
    and "explicit_values ''/TIMESEND'' (strip le) = Some ys"
    and "\<forall>l \<in> set post. \<not> contains ''/TIMESEND'' (strip l)"
  shows "times_end (results (scan_lines (pre @ le # post))) = ys
       \<and> num_channels (results (scan_lines (pre @ le # post))) = Some (length ys)"
  using assms by (simp add: scan_lines_def fold_keeps_end process_line_sets_end)

text \<open>
  Claim C1, as amended. Let the last \<open>/TIMESSTART\<close> line of the file parse to \<open>xs\<close> and
  the last \<open>/TIMESEND\<close> line to \<open>ys\<close>. If the file does not also yield a \<open>TIMES\<close> and
  a \<open>TIMESWIDTH\<close> array of the same non-zero length, the resolved \<open>times_start\<close> and
  \<open>times_end\<close> are exactly \<open>xs\<close> and \<open>ys\<close>, and \<open>num_channels\<close> is the length of
  \<open>ys\<close>. If it does, the reconciliation of \<open>TIMES\<close> and \<open>TIMESWIDTH\<close> is computed
  and replaces both arrays: the explicit directives take precedence only within one
  line, not over the file.
\<close>

theorem explicit_times_unless_paired:
  assumes "file_lines = pre @ ls # post"
    and "contains ''/TIMESSTART'' (strip ls)"
    and "explicit_values ''/TIMESSTART'' (strip ls) = Some xs"
    and "\<forall>l \<in> set post. \<not> contains ''/TIMESSTART'' (strip l)"
    and "file_lines = pre' @ le # post'"
    and "\<not> contains ''/TIMESSTART'' (strip le)"
    and "contains ''/TIMESEND'' (strip le)"
    and "explicit_values ''/TIMESEND'' (strip le) = Some ys"
    and "\<forall>l \<in> set post'. \<not> contains ''/TIMESEND'' (strip l)"
  shows "if paired_usable (scan_lines file_lines)
         then times_start (parse_file_headers file_lines)
                = map (\<lambda>(t, w). t - w)
                    (zip (to_ms (current_unit (scan_lines file_lines))
                            (opt_list (sc_times (scan_lines file_lines))))
                         (to_ms (current_unit (scan_lines file_lines))
                            (opt_list (sc_times_width (scan_lines file_lines)))))
            \<and> times_end (parse_file_headers file_lines)
                = map (\<lambda>(t, w). t + w)
                    (zip (to_ms (current_unit (scan_lines file_lines))
                            (opt_list (sc_times (scan_lines file_lines))))
                         (to_ms (current_unit (scan_lines file_lines))
                            (opt_list (sc_times_width (scan_lines file_lines)))))
         else times_start (parse_file_headers file_lines) = xs
            \<and> times_end (parse_file_headers file_lines) = ys
            \<and> num_channels (parse_file_headers file_lines) = Some (length ys)"
proof (cases "paired_usable (scan_lines file_lines)")
  case True
  then show ?thesis
    using resolve_times_paired(1,2) [OF True] by (simp add: parse_file_headers_def)
next
  case False
  have s: "times_start (results (scan_lines file_lines)) = xs"
    using scan_last_start [OF assms(2) assms(3) assms(4)] assms(1) by simp
  have e: "times_end (results (scan_lines file_lines)) = ys
      \<and> num_channels (results (scan_lines file_lines)) = Some (length ys)"
    using scan_last_end [OF assms(6) assms(7) assms(8) assms(9)] assms(5) by simp
  show ?thesis
    using False s e by (simp add: parse_file_headers_def resolve_times_unpaired)
qed

theorem explicit_times_unless_paired_witness:
  "\<not> paired_usable (scan_lines [''/TIMESSTART(ms)=1,2'', ''/TIMESEND(ms)=3,4'', ''BFREQ=5.2''])
   \<and> times_start (parse_file_headers [''/TIMESSTART(ms)=1,2'', ''/TIMESEND(ms)=3,4'', ''BFREQ=5.2''])
       = [1, 2]
   \<and> times_end (parse_file_headers [''/TIMESSTART(ms)=1,2'', ''/TIMESEND(ms)=3,4'', ''BFREQ=5.2''])
       = [3, 4]
   \<and> num_channels (parse_file_headers [''/TIMESSTART(ms)=1,2'', ''/TIMESEND(ms)=3,4'', ''BFREQ=5.2''])
       = Some 2"
proof -
  let ?f = "[''/TIMESSTART(ms)=1,2'', ''/TIMESEND(ms)=3,4'', ''BFREQ=5.2'']"
  have 1: "?f = [] @ ''/TIMESSTART(ms)=1,2'' # [''/TIMESEND(ms)=3,4'', ''BFREQ=5.2'']" by simp
  have 2: "contains ''/TIMESSTART'' (strip ''/TIMESSTART(ms)=1,2'')" by code_simp
  have 3: "explicit_values ''/TIMESSTART'' (strip ''/TIMESSTART(ms)=1,2'') = Some [1, 2]"
    by code_simp
  have 4: "\<forall>l \<in> set [''/TIMESEND(ms)=3,4'', ''BFREQ=5.2'']. \<not> contains ''/TIMESSTART'' (strip l)"
    by code_simp
  have 5: "?f = [''/TIMESSTART(ms)=1,2''] @ ''/TIMESEND(ms)=3,4'' # [''BFREQ=5.2'']" by simp
  have 6: "\<not> contains ''/TIMESSTART'' (strip ''/TIMESEND(ms)=3,4'')" by code_simp
  have 7: "contains ''/TIMESEND'' (strip ''/TIMESEND(ms)=3,4'')" by code_simp
  have 8: "explicit_values ''/TIMESEND'' (strip ''/TIMESEND(ms)=3,4'') = Some [3, 4]"
    by code_simp
  have 9: "\<forall>l \<in> set [''BFREQ=5.2'']. \<not> contains ''/TIMESEND'' (strip l)" by code_simp
  have 10: "\<not> paired_usable (scan_lines ?f)" by code_simp
  show ?thesis
    using explicit_times_unless_paired [OF 1 2 3 4 5 6 7 8 9] 10 by simp
qed

theorem explicit_times_overridden_counterexample:
  "contains ''/TIMESSTART'' ''/TIMESSTART(ms)=1,2''
   \<and> explicit_values ''/TIMESSTART'' ''/TIMESSTART(ms)=1,2'' = Some [1, 2]
   \<and> contains ''/TIMESEND'' ''/TIMESEND(ms)=3,4''
   \<and> explicit_values ''/TIMESEND'' ''/TIMESEND(ms)=3,4'' = Some [3, 4]
   \<and> times_start (parse_file_headers
        [''/TIMESSTART(ms)=1,2'', ''/TIMESEND(ms)=3,4'', ''/TIMES(ms)=5,6'',
         ''/TIMESWIDTH(ms)=1,1'']) = [4, 5]
   \<and> times_start (parse_file_headers
        [''/TIMESSTART(ms)=1,2'', ''/TIMESEND(ms)=3,4'', ''/TIMES(ms)=5,6'',
         ''/TIMESWIDTH(ms)=1,1'']) \<noteq> [1, 2]
   \<and> times_end (parse_file_headers
        [''/TIMESSTART(ms)=1,2'', ''/TIMESEND(ms)=3,4'', ''/TIMES(ms)=5,6'',
         ''/TIMESWIDTH(ms)=1,1'']) = [6, 7]"
  by code_simp

subsection \<open>TEM: waveform naming\<close>




lemma falsy_Some: "b \<noteq> [] \<Longrightarrow> \<not> falsy (Some b)"
  by (simp add: falsy_def)




subsection \<open>TEM: the second unit conversion of the sampling descriptor\<close>

lemma sampling_times_us:
  assumes "\<exists>line \<in> set (header_lines h).
             contains ''TIMESSTART(us)'' line \<or> contains ''TIMES(us)'' line
             \<or> contains ''TIMESEND(us)'' line"
  shows "sampling_times h
           = (map (\<lambda>t. t / 1000) (times_start h), map (\<lambda>t. t / 1000) (times_end h))"
  using assms by (simp add: sampling_times_def sniff_time_unit_def)

lemma generate_sampling_csv_written:
  assumes "fst (generate_sampling_csv h wname dir fs) = Some fname"
  shows "\<exists>name n. num_channels h = Some n \<and> fname = name @ ''.csv''
           \<and> snd (generate_sampling_csv h wname dir fs)
               = write_file (path_join dir fname)
                   (concat (sampling_text name (units h) n (fst (sampling_times h))
                              (snd (sampling_times h)))) fs"
  using assms
  by (auto simp: generate_sampling_csv_def Let_def
           split: prod.splits option.splits if_splits)

text \<open>
  Claim C3, as amended. When a header line holds \<open>TIMESSTART(us)\<close>, \<open>TIMES(us)\<close> or
  \<open>TIMESEND(us)\<close>, the sampling builder divides the resolved \<open>times_start\<close> and
  \<open>times_end\<close> by 1000 once, and writes those values to the sampling CSV. This comes on
  top of whatever the resolution did: the times are divided twice in total when they were
  reconciled from \<open>TIMES\<close> and \<open>TIMESWIDTH\<close> with the unit \<open>us\<close>, and once in total when
  they come from explicit \<open>TIMESSTART\<close> and \<open>TIMESEND\<close> directives (or from a
  reconciliation in ms), since the resolution converts only reconciled arrays.
\<close>

theorem sampling_divides_once_more:
  assumes "\<exists>line \<in> set (header_lines (parse_file_headers file_lines)).
             contains ''TIMESSTART(us)'' line \<or> contains ''TIMES(us)'' line
             \<or> contains ''TIMESEND(us)'' line"
  shows "sampling_times (parse_file_headers file_lines)
           = (map (\<lambda>t. t / 1000) (times_start (parse_file_headers file_lines)),
              map (\<lambda>t. t / 1000) (times_end (parse_file_headers file_lines)))
       \<and> (paired_usable (scan_lines file_lines)
            \<and> current_unit (scan_lines file_lines) = ''us'' \<longrightarrow>
            sampling_times (parse_file_headers file_lines)
              = (map (\<lambda>(t, w). (t / 1000 - w / 1000) / 1000)
                   (zip (opt_list (sc_times (scan_lines file_lines)))
                        (opt_list (sc_times_width (scan_lines file_lines)))),
                 map (\<lambda>(t, w). (t / 1000 + w / 1000) / 1000)
                   (zip (opt_list (sc_times (scan_lines file_lines)))
                        (opt_list (sc_times_width (scan_lines file_lines))))))
       \<and> (paired_usable (scan_lines file_lines)
            \<and> current_unit (scan_lines file_lines) \<noteq> ''us'' \<longrightarrow>
            sampling_times (parse_file_headers file_lines)
              = (map (\<lambda>(t, w). (t - w) / 1000)
                   (zip (opt_list (sc_times (scan_lines file_lines)))
                        (opt_list (sc_times_width (scan_lines file_lines)))),
                 map (\<lambda>(t, w). (t + w) / 1000)
                   (zip (opt_list (sc_times (scan_lines file_lines)))
                        (opt_list (sc_times_width (scan_lines file_lines))))))
       \<and> (\<not> paired_usable (scan_lines file_lines) \<longrightarrow>
            sampling_times (parse_file_headers file_lines)
              = (map (\<lambda>t. t / 1000) (times_start (results (scan_lines file_lines))),
                 map (\<lambda>t. t / 1000) (times_end (results (scan_lines file_lines)))))
       \<and> (\<forall>wname dir fs fname.
            fst (generate_sampling_csv (parse_file_headers file_lines) wname dir fs) = Some fname \<longrightarrow>
            (\<exists>name n.
               snd (generate_sampling_csv (parse_file_headers file_lines) wname dir fs)
                 = write_file (path_join dir fname)
                     (concat (sampling_text name (units (parse_file_headers file_lines)) n
                                (map (\<lambda>t. t / 1000) (times_start (parse_file_headers file_lines)))
                                (map (\<lambda>t. t / 1000) (times_end (parse_file_headers file_lines)))))
                     fs))"
proof -
  let ?h = "parse_file_headers file_lines"
  let ?st = "scan_lines file_lines"
  have base: "sampling_times ?h
      = (map (\<lambda>t. t / 1000) (times_start ?h), map (\<lambda>t. t / 1000) (times_end ?h))"
    using sampling_times_us [OF assms] .
  have hs: "times_start ?h = times_start (resolve_times ?st)"
    and he: "times_end ?h = times_end (resolve_times ?st)"
    by (simp_all add: parse_file_headers_def)
  have us: "sampling_times ?h
      = (map (\<lambda>(t, w). (t / 1000 - w / 1000) / 1000)
           (zip (opt_list (sc_times ?st)) (opt_list (sc_times_width ?st))),
         map (\<lambda>(t, w). (t / 1000 + w / 1000) / 1000)
           (zip (opt_list (sc_times ?st)) (opt_list (sc_times_width ?st))))"
    if "paired_usable ?st" "current_unit ?st = ''us''"
    using resolve_times_paired(1,2) [OF that(1)] that(2)
    by (simp add: base hs he to_ms_def zip_map_map split_def)
  have ms: "sampling_times ?h
      = (map (\<lambda>(t, w). (t - w) / 1000)
           (zip (opt_list (sc_times ?st)) (opt_list (sc_times_width ?st))),
         map (\<lambda>(t, w). (t + w) / 1000)
           (zip (opt_list (sc_times ?st)) (opt_list (sc_times_width ?st))))"
    if "paired_usable ?st" "current_unit ?st \<noteq> ''us''"
    using resolve_times_paired(1,2) [OF that(1)] that(2)
    by (simp add: base hs he to_ms_def split_def)
  have ex: "sampling_times ?h
      = (map (\<lambda>t. t / 1000) (times_start (results ?st)),
         map (\<lambda>t. t / 1000) (times_end (results ?st)))"
    if "\<not> paired_usable ?st"
    using resolve_times_unpaired [OF that] by (simp add: base hs he)
  have wr: "\<exists>name n.
      snd (generate_sampling_csv ?h wname dir fs)
        = write_file (path_join dir fname)
            (concat (sampling_text name (units ?h) n
                       (map (\<lambda>t. t / 1000) (times_start ?h))
                       (map (\<lambda>t. t / 1000) (times_end ?h)))) fs"
    if "fst (generate_sampling_csv ?h wname dir fs) = Some fname" for wname dir fs fname
    using generate_sampling_csv_written [OF that] by (auto simp: base)
  show ?thesis
    using base us ms ex wr by blast
qed

theorem sampling_divides_once_more_witness:
  "sampling_times (parse_file_headers [''/TIMES(us)=5000.0'', ''/TIMESWIDTH(us)=1000.0''])
     = ([(5000 / 1000 - 1000 / 1000) / 1000], [(5000 / 1000 + 1000 / 1000) / 1000])
   \<and> sampling_times (parse_file_headers [''/TIMESSTART(us)=1000,2000'', ''/TIMESEND(us)=3000,4000''])
     = ([1000 / 1000, 2000 / 1000], [3000 / 1000, 4000 / 1000])"
proof -
  let ?b = "[''/TIMES(us)=5000.0'', ''/TIMESWIDTH(us)=1000.0'']"
  let ?a = "[''/TIMESSTART(us)=1000,2000'', ''/TIMESEND(us)=3000,4000'']"
  have hb: "\<exists>line \<in> set (header_lines (parse_file_headers ?b)).
      contains ''TIMESSTART(us)'' line \<or> contains ''TIMES(us)'' line
      \<or> contains ''TIMESEND(us)'' line"
    by code_simp
  have ha: "\<exists>line \<in> set (header_lines (parse_file_headers ?a)).
      contains ''TIMESSTART(us)'' line \<or> contains ''TIMES(us)'' line
      \<or> contains ''TIMESEND(us)'' line"
    by code_simp
  have b: "paired_usable (scan_lines ?b)" "current_unit (scan_lines ?b) = ''us''"
    "sc_times (scan_lines ?b) = Some [5000]" "sc_times_width (scan_lines ?b) = Some [1000]"
    by code_simp+
  have a: "\<not> paired_usable (scan_lines ?a)"
    "times_start (results (scan_lines ?a)) = [1000, 2000]"
    "times_end (results (scan_lines ?a)) = [3000, 4000]"
    by code_simp+
  have tb: "sampling_times (parse_file_headers ?b)
      = (map (\<lambda>(t, w). (t / 1000 - w / 1000) / 1000)
           (zip (opt_list (sc_times (scan_lines ?b))) (opt_list (sc_times_width (scan_lines ?b)))),
         map (\<lambda>(t, w). (t / 1000 + w / 1000) / 1000)
           (zip (opt_list (sc_times (scan_lines ?b))) (opt_list (sc_times_width (scan_lines ?b)))))"
    using sampling_divides_once_more [OF hb] b(1,2) by blast
  have ta: "sampling_times (parse_file_headers ?a)
      = (map (\<lambda>t. t / 1000) (times_start (results (scan_lines ?a))),
         map (\<lambda>t. t / 1000) (times_end (results (scan_lines ?a))))"
    using sampling_divides_once_more [OF ha] a(1) by blast
  show ?thesis
    unfolding tb ta b(3,4) a(2,3) by (simp add: opt_list_def)
qed

theorem sampling_divides_twice_counterexample:
  "times_start (parse_file_headers
      [''/TIMESSTART(us)=1000,2000'', ''/TIMESEND(us)=3000,4000'', ''BFREQ=5.2'']) = [1000, 2000]
   \<and> times_end (parse_file_headers
      [''/TIMESSTART(us)=1000,2000'', ''/TIMESEND(us)=3000,4000'', ''BFREQ=5.2'']) = [3000, 4000]
   \<and> sampling_times (parse_file_headers
      [''/TIMESSTART(us)=1000,2000'', ''/TIMESEND(us)=3000,4000'', ''BFREQ=5.2''])
       = ([1, 2], [3, 4])
   \<and> read_file (process_tem_file
        [''/TIMESSTART(us)=1000,2000'', ''/TIMESEND(us)=3000,4000'', ''BFREQ=5.2''] ''W'' ''S'' [])
        ''S/Square_5.200_2ch.csv''
       = Some (''Sampling Name,Square_5.200_2ch'' @ [CHR 0x0A] @
               ''Primary Time Gate,1.000,3.000'' @ [CHR 0x0A] @
               ''Field Type,b'' @ [CHR 0x0A] @
               ''Channel Name,ChStart,ChEnd,Red,Green,Blue,LineWt'' @ [CHR 0x0A] @
               ''Ch1,1.000,3.000,0.250000,0.750000,0.500000,2'' @ [CHR 0x0A] @
               ''Ch2,2.000,4.000,0.300000,0.700000,0.500000,2'' @ [CHR 0x0A])"
  by code_simp

subsection \<open>TEM: the name of the sampling descriptor\<close>

lemma digit_char_is_digit: "0 \<le> d \<Longrightarrow> d < 10 \<Longrightarrow> is_digit (digit_char d)"
proof -
  assume "0 \<le> d" "d < 10"
  then have "nat d < length ''0123456789''" by simp
  then have "''0123456789'' ! nat d \<in> set ''0123456789''" by (rule nth_mem)
  then show ?thesis by (simp only: is_digit_def digit_char_def)
qed

lemma show_digits_digits: "0 \<le> n \<Longrightarrow> list_all is_digit (show_digits n)"
proof (induction n rule: show_digits.induct)
  case (1 n)
  show ?case
  proof (cases "n < 10")
    case True
    then show ?thesis
      using "1.prems" by (subst show_digits.simps) (simp add: digit_char_is_digit)
  next
    case False
    have "list_all is_digit (show_digits (n div 10))"
      using "1.IH" [OF False] "1.prems" by simp
    moreover have "is_digit (digit_char (n mod 10))"
      by (rule digit_char_is_digit) simp_all
    ultimately show ?thesis
      using False by (subst show_digits.simps) simp
  qed
qed

lemma show_digits_length: "0 \<le> n \<Longrightarrow> n < 10 ^ k \<Longrightarrow> 0 < k \<Longrightarrow> length (show_digits n) \<le> k"
proof (induction n arbitrary: k rule: show_digits.induct)
  case (1 n)
  show ?case
  proof (cases "n < 10")
    case True
    then show ?thesis using "1.prems" by (subst show_digits.simps) simp
  next
    case False
    obtain j where k: "k = Suc j" using "1.prems"(3) by (cases k) auto
    have "j \<noteq> 0"
    proof
      assume "j = 0"
      then have "n < 10" using "1.prems"(2) k by simp
      then show False using False by simp
    qed
    then have jpos: "0 < j" by simp
    define m :: int where "m = 10 ^ j"
    have "n < 10 * m" using "1.prems"(2) k by (simp add: m_def)
    then have "n div 10 < m" by presburger
    then have "n div 10 < 10 ^ j" by (simp add: m_def)
    then have "length (show_digits (n div 10)) \<le> j"
      using "1.IH" [OF False, of j] "1.prems"(1) jpos by simp
    then show ?thesis
      using False k by (subst show_digits.simps) simp
  qed
qed

lemma round_half_even_nonneg: "0 \<le> a \<Longrightarrow> 0 \<le> round_half_even a"
  by (simp add: round_half_even_def Let_def)

lemma is_digit_not_dot: "is_digit c \<Longrightarrow> c \<noteq> CHR ''.''"
  by (auto simp: is_digit_def)

lemma frac_part_fixed:
  assumes "list_all is_digit fp"
  shows "frac_part (pre @ ''.'' @ fp) = fp"
proof -
  have "\<forall>c \<in> set (rev fp). c \<noteq> CHR ''.''"
    using assms by (auto simp: list_all_iff is_digit_not_dot)
  then have "takeWhile (\<lambda>c. c \<noteq> CHR ''.'') (rev fp @ CHR ''.'' # rev pre) = rev fp"
    by (simp add: takeWhile_tail)
  then show ?thesis by (simp add: frac_part_def)
qed

lemma fmt_fixed_decimals: "0 < p \<Longrightarrow> fixed_decimals p (fmt_fixed p x)"
proof -
  assume p: "0 < p"
  let ?r = "round_half_even (\<bar>x\<bar> * 10 ^ p)"
  let ?fp = "show_digits (?r mod 10 ^ p)"
  let ?frac = "replicate (p - length ?fp) CHR ''0'' @ ?fp"
  let ?pre = "(if x < 0 then ''-'' else '''') @ show_digits (?r div 10 ^ p)"
  have shape: "fmt_fixed p x = ?pre @ ''.'' @ ?frac"
    using p by (simp add: fmt_fixed_def Let_def)
  have m0: "0 \<le> ?r mod 10 ^ p" by simp
  have m1: "?r mod 10 ^ p < 10 ^ p" by simp
  have len: "length ?fp \<le> p" using show_digits_length [OF m0 m1 p] .
  have dig: "list_all is_digit ?fp" using show_digits_digits [OF m0] .
  have zero: "is_digit CHR ''0''" by (simp add: is_digit_def)
  have all: "list_all is_digit ?frac" using dig zero by (auto simp: list_all_iff)
  have "frac_part (fmt_fixed p x) = ?frac"
    unfolding shape using frac_part_fixed [OF all] .
  moreover have "length ?frac = p" using len by simp
  moreover have "CHR ''.'' \<in> set (fmt_fixed p x)" unfolding shape by simp
  ultimately show ?thesis using all by (simp add: fixed_decimals_def)
qed


lemma format_base_name_Some:
  assumes "format_base_name base = Some formatted"
  shows "if contains ''UTEM'' base then formatted = base
         else if nth_opt (split_str ''_'' base) 0 = Some ''50''
         then \<exists>p x. nth_opt (split_str ''_'' base) 2 = Some p \<and> py_float p = Some x
                \<and> formatted = ''50_Square_'' @ fmt_fixed 3 x
         else \<exists>p x. nth_opt (split_str ''_'' base) 1 = Some p \<and> py_float p = Some x
                \<and> formatted = ''Square_'' @ fmt_fixed 3 x"
proof (cases "contains ''UTEM'' base")
  case True
  then show ?thesis using assms by (simp add: format_base_name_def)
next
  case utem: False
  define parts where "parts = split_str ''_'' base"
  show ?thesis
  proof (cases "nth_opt parts 0 = Some ''50''")
    case True
    have "(case nth_opt parts 2 of
             None \<Rightarrow> None
           | Some p \<Rightarrow> (case py_float p of
                          None \<Rightarrow> None
                        | Some freq \<Rightarrow> Some (''50_Square_'' @ fmt_fixed 3 freq))) = Some formatted"
      using assms utem True unfolding format_base_name_def parts_def Let_def
      by (simp only: if_False if_True simp_thms)
    then obtain p x where "nth_opt parts 2 = Some p" "py_float p = Some x"
      "formatted = ''50_Square_'' @ fmt_fixed 3 x"
      by (auto split: option.splits)
    then show ?thesis using utem True unfolding parts_def by (simp only: if_False if_True simp_thms) blast
  next
    case False
    have "(case nth_opt parts 1 of
             None \<Rightarrow> None
           | Some p \<Rightarrow> (case py_float p of
                          None \<Rightarrow> None
                        | Some freq \<Rightarrow> Some (''Square_'' @ fmt_fixed 3 freq))) = Some formatted"
      using assms utem False unfolding format_base_name_def parts_def Let_def
      by (simp only: if_False if_True simp_thms)
    then obtain p x where "nth_opt parts 1 = Some p" "py_float p = Some x"
      "formatted = ''Square_'' @ fmt_fixed 3 x"
      by (auto split: option.splits)
    then show ?thesis using utem False unfolding parts_def by (simp only: if_False if_True simp_thms) blast
  qed
qed

lemma generate_sampling_csv_name:
  assumes "generate_sampling_csv h wname dir fs = (Some fname, fs')"
  shows "\<exists>formatted n rest.
           format_base_name (path_stem wname) = Some formatted
         \<and> num_channels h = Some n
         \<and> fname = formatted @ ''_'' @ show_nat n @ ''ch.csv''
         \<and> fs' = write_file (path_join dir fname)
                   (''Sampling Name,'' @ formatted @ ''_'' @ show_nat n @ ''ch''
                    @ [CHR 0x0A] @ rest) fs"
  using assms
  by (auto simp: generate_sampling_csv_def Let_def sampling_text_def
           split: prod.splits option.splits if_splits)

text \<open>
  Claim C6, as amended. Whenever the sampling builder succeeds, the sampling name, written
  in the first line of the file and in the file name, is \<open>formatted_<num_channels>ch\<close>.
  For a waveform base name that does not hold \<open>UTEM\<close>, \<open>formatted\<close> is \<open>Square_\<close> or
  \<open>50_Square_\<close> followed by the frequency of the base name, parsed and printed again
  with exactly 3 decimal places. For a base name that holds \<open>UTEM\<close>, \<open>formatted\<close> is
  the base name unchanged: its frequency is not parsed and not printed again.
\<close>

theorem sampling_name_format:
  assumes "generate_sampling_csv h wname dir fs = (Some fname, fs')"
  shows "\<exists>formatted n rest.
           num_channels h = Some n
         \<and> fname = formatted @ ''_'' @ show_nat n @ ''ch.csv''
         \<and> fs' = write_file (path_join dir fname)
                   (''Sampling Name,'' @ formatted @ ''_'' @ show_nat n @ ''ch''
                    @ [CHR 0x0A] @ rest) fs
         \<and> (if contains ''UTEM'' (path_stem wname) then formatted = path_stem wname
             else if nth_opt (split_str ''_'' (path_stem wname)) 0 = Some ''50''
             then \<exists>p x. nth_opt (split_str ''_'' (path_stem wname)) 2 = Some p
                    \<and> py_float p = Some x
                    \<and> formatted = ''50_Square_'' @ fmt_fixed 3 x
                    \<and> fixed_decimals 3 (fmt_fixed 3 x)
             else \<exists>p x. nth_opt (split_str ''_'' (path_stem wname)) 1 = Some p
                    \<and> py_float p = Some x
                    \<and> formatted = ''Square_'' @ fmt_fixed 3 x
                    \<and> fixed_decimals 3 (fmt_fixed 3 x))"
proof -
  obtain formatted n rest where
    f: "format_base_name (path_stem wname) = Some formatted"
    and n: "num_channels h = Some n"
    and nm: "fname = formatted @ ''_'' @ show_nat n @ ''ch.csv''"
    and w: "fs' = write_file (path_join dir fname)
                   (''Sampling Name,'' @ formatted @ ''_'' @ show_nat n @ ''ch''
                    @ [CHR 0x0A] @ rest) fs"
    using generate_sampling_csv_name [OF assms] by blast
  have dec: "fixed_decimals 3 (fmt_fixed 3 x)" for x
    by (rule fmt_fixed_decimals) simp
  let ?base = "path_stem wname"
  have shape: "if contains ''UTEM'' ?base then formatted = ?base
      else if nth_opt (split_str ''_'' ?base) 0 = Some ''50''
      then \<exists>p x. nth_opt (split_str ''_'' ?base) 2 = Some p
             \<and> py_float p = Some x
             \<and> formatted = ''50_Square_'' @ fmt_fixed 3 x
             \<and> fixed_decimals 3 (fmt_fixed 3 x)
      else \<exists>p x. nth_opt (split_str ''_'' ?base) 1 = Some p
             \<and> py_float p = Some x
             \<and> formatted = ''Square_'' @ fmt_fixed 3 x
             \<and> fixed_decimals 3 (fmt_fixed 3 x)"
  proof (cases "contains ''UTEM'' ?base")
    case True
    then show ?thesis
      using format_base_name_Some [OF f] by (simp only: if_True)
  next
    case utem: False
    show ?thesis
    proof (cases "nth_opt (split_str ''_'' ?base) 0 = Some ''50''")
      case True
      have "\<exists>p x. nth_opt (split_str ''_'' ?base) 2 = Some p \<and> py_float p = Some x
          \<and> formatted = ''50_Square_'' @ fmt_fixed 3 x"
        using format_base_name_Some [OF f] utem True by (simp only: if_True if_False simp_thms)
      then obtain p x where "nth_opt (split_str ''_'' ?base) 2 = Some p" "py_float p = Some x"
        "formatted = ''50_Square_'' @ fmt_fixed 3 x"
        by blast
      then have "\<exists>p x. nth_opt (split_str ''_'' ?base) 2 = Some p \<and> py_float p = Some x
          \<and> formatted = ''50_Square_'' @ fmt_fixed 3 x \<and> fixed_decimals 3 (fmt_fixed 3 x)"
        using dec by blast
      then show ?thesis using utem True by (simp only: if_True if_False simp_thms)
    next
      case False
      have "\<exists>p x. nth_opt (split_str ''_'' ?base) 1 = Some p \<and> py_float p = Some x
          \<and> formatted = ''Square_'' @ fmt_fixed 3 x"
        using format_base_name_Some [OF f] utem False by (simp only: if_True if_False simp_thms)
      then obtain p x where "nth_opt (split_str ''_'' ?base) 1 = Some p" "py_float p = Some x"
        "formatted = ''Square_'' @ fmt_fixed 3 x"
        by blast
      then have "\<exists>p x. nth_opt (split_str ''_'' ?base) 1 = Some p \<and> py_float p = Some x
          \<and> formatted = ''Square_'' @ fmt_fixed 3 x \<and> fixed_decimals 3 (fmt_fixed 3 x)"
        using dec by blast
      then show ?thesis using utem False by (simp only: if_True if_False simp_thms)
    qed
  qed
  show ?thesis
    apply (rule exI [of _ formatted])
    apply (rule exI [of _ n])
    apply (rule exI [of _ rest])
    apply (intro conjI)
       apply (rule n)
      apply (rule nm)
     apply (rule w)
    apply (rule shape)
    done
qed

theorem sampling_name_format_witness:
  "fst (generate_sampling_csv
          (parse_file_headers [''/TIMESSTART(ms)=1,2'', ''/TIMESEND(ms)=3,4'', ''BFREQ=5.2''])
          ''Square_5.2.csv'' ''S'' []) = Some ''Square_5.200_2ch.csv''
   \<and> (\<exists>formatted n rest.
         num_channels
           (parse_file_headers [''/TIMESSTART(ms)=1,2'', ''/TIMESEND(ms)=3,4'', ''BFREQ=5.2''])
           = Some n
       \<and> ''Square_5.200_2ch.csv'' = formatted @ ''_'' @ show_nat n @ ''ch.csv''
       \<and> (\<exists>p x. nth_opt (split_str ''_'' (path_stem ''Square_5.2.csv'')) 1 = Some p
              \<and> py_float p = Some x
              \<and> formatted = ''Square_'' @ fmt_fixed 3 x
              \<and> fixed_decimals 3 (fmt_fixed 3 x)))"
proof -
  let ?h = "parse_file_headers [''/TIMESSTART(ms)=1,2'', ''/TIMESEND(ms)=3,4'', ''BFREQ=5.2'']"
  have r: "fst (generate_sampling_csv ?h ''Square_5.2.csv'' ''S'' []) = Some ''Square_5.200_2ch.csv''"
    by code_simp
  then have e: "generate_sampling_csv ?h ''Square_5.2.csv'' ''S'' []
      = (Some ''Square_5.200_2ch.csv'', snd (generate_sampling_csv ?h ''Square_5.2.csv'' ''S'' []))"
    by (metis prod.collapse)
  have u: "\<not> contains ''UTEM'' (path_stem ''Square_5.2.csv'')" by code_simp
  have f: "nth_opt (split_str ''_'' (path_stem ''Square_5.2.csv'')) 0 \<noteq> Some ''50''" by code_simp
  obtain formatted n rest where
    1: "num_channels ?h = Some n"
    and 2: "''Square_5.200_2ch.csv'' = formatted @ ''_'' @ show_nat n @ ''ch.csv''"
    and 3: "if contains ''UTEM'' (path_stem ''Square_5.2.csv'')
            then formatted = path_stem ''Square_5.2.csv''
            else if nth_opt (split_str ''_'' (path_stem ''Square_5.2.csv'')) 0 = Some ''50''
            then \<exists>p x. nth_opt (split_str ''_'' (path_stem ''Square_5.2.csv'')) 2 = Some p
                   \<and> py_float p = Some x
                   \<and> formatted = ''50_Square_'' @ fmt_fixed 3 x
                   \<and> fixed_decimals 3 (fmt_fixed 3 x)
            else \<exists>p x. nth_opt (split_str ''_'' (path_stem ''Square_5.2.csv'')) 1 = Some p
                   \<and> py_float p = Some x
                   \<and> formatted = ''Square_'' @ fmt_fixed 3 x
                   \<and> fixed_decimals 3 (fmt_fixed 3 x)"
    using sampling_name_format [OF e] by blast
  have 4: "\<exists>p x. nth_opt (split_str ''_'' (path_stem ''Square_5.2.csv'')) 1 = Some p
           \<and> py_float p = Some x
           \<and> formatted = ''Square_'' @ fmt_fixed 3 x
           \<and> fixed_decimals 3 (fmt_fixed 3 x)"
    using 3 u f by (simp only: if_False simp_thms)
  show ?thesis using r 1 2 4 by blast
qed

theorem sampling_name_utem_counterexample:
  "fst (generate_waveform_csv
          (parse_file_headers
             [''/TIMESSTART(ms)=1,2'', ''/TIMESEND(ms)=3,4'', ''BFREQ=5.2Hz TXWAVEFORM=UTEM''])
          ''W'' []) = Inr (Some ''UTEM_5.2Hz.csv'')
   \<and> fst (generate_sampling_csv
          (parse_file_headers
             [''/TIMESSTART(ms)=1,2'', ''/TIMESEND(ms)=3,4'', ''BFREQ=5.2Hz TXWAVEFORM=UTEM''])
          ''UTEM_5.2Hz.csv'' ''S'' []) = Some ''UTEM_5.2Hz_2ch.csv''
   \<and> \<not> fixed_decimals 3 ''5.2Hz''
   \<and> fst (generate_sampling_csv
          (parse_file_headers [''/TIMESSTART(ms)=1,2'', ''/TIMESEND(ms)=3,4'', ''BFREQ=5.2''])
          ''UTEM_5.2.csv'' ''S'' []) = Some ''UTEM_5.2_2ch.csv''
   \<and> \<not> fixed_decimals 3 ''5.2''
   \<and> fst (generate_sampling_csv
          (parse_file_headers [''/TIMESSTART(ms)=1,2'', ''/TIMESEND(ms)=3,4'', ''BFREQ=5.2''])
          ''Square_5.2.csv'' ''S'' []) = Some ''Square_5.200_2ch.csv''"
  by code_simp

subsection \<open>TEM: writing the waveform descriptor twice\<close>

lemma store_waveform_cases:
  "store_waveform dir name content fs = fs
   \<or> store_waveform dir name content fs = (path_join dir name, csv_text content) # fs"
  by (simp add: store_waveform_def Let_def write_file_def split: option.splits)

lemma store_waveform_twice:
  "read_file (store_waveform dir name content (store_waveform dir name content fs)) p
     = read_file (store_waveform dir name content fs) p"
proof (cases "store_waveform dir name content fs = fs")
  case True
  then show ?thesis by simp
next
  case False
  then have w: "store_waveform dir name content fs = (path_join dir name, csv_text content) # fs"
    using store_waveform_cases by blast
  have "store_waveform dir name content ((path_join dir name, csv_text content) # fs)
          = (path_join dir name, csv_text content) # fs
      \<or> store_waveform dir name content ((path_join dir name, csv_text content) # fs)
          = (path_join dir name, csv_text content) # (path_join dir name, csv_text content) # fs"
    using store_waveform_cases by blast
  then show ?thesis unfolding w by (auto simp: read_file_def)
qed

lemma generate_waveform_csv_shape:
  "(\<forall>fs'. snd (generate_waveform_csv h dir fs') = fs')
   \<or> (\<exists>name content. \<forall>fs'. snd (generate_waveform_csv h dir fs')
                                 = store_waveform dir name content fs')"
proof (cases "duty_cycle h")
  case None
  then show ?thesis by (simp add: generate_waveform_csv_def)
next
  case (Some d)
  show ?thesis
  proof (cases "falsy (base_frequency h)")
    case True
    then show ?thesis using Some by (simp add: generate_waveform_csv_def Let_def)
  next
    case nf: False
    show ?thesis
    proof (cases "tx_waveform h = ''UTEM''")
      case True
      then have "\<forall>fs'. snd (generate_waveform_csv h dir fs')
          = store_waveform dir (''UTEM_'' @ str_opt (base_frequency h) @ ''.csv'')
              (utem_content (''UTEM_'' @ str_opt (base_frequency h))
                 (str_opt (base_frequency h))) fs'"
        using Some nf by (simp add: generate_waveform_csv_def Let_def)
      then show ?thesis by blast
    next
      case nu: False
      show ?thesis
      proof (cases "tx_waveform h = ''Undefined''")
        case True
        then have "\<forall>fs'. snd (generate_waveform_csv h dir fs')
            = store_waveform dir
                (duty_waveform_name d (str_opt (base_frequency h)) @ ''.csv'')
                (if contains ''50_Square'' (duty_waveform_name d (str_opt (base_frequency h)))
                 then square50_content (duty_waveform_name d (str_opt (base_frequency h)))
                        (str_opt (base_frequency h))
                 else square100_content (duty_waveform_name d (str_opt (base_frequency h)))
                        (str_opt (base_frequency h))) fs'"
          using Some nf nu by (simp add: generate_waveform_csv_def Let_def)
        then show ?thesis by blast
      next
        case False
        then show ?thesis using Some nf nu by (simp add: generate_waveform_csv_def Let_def)
      qed
    qed
  qed
qed

lemma waveform_regenerated_same_content:
  "read_file (snd (generate_waveform_csv h dir (snd (generate_waveform_csv h dir fs)))) p
     = read_file (snd (generate_waveform_csv h dir fs)) p"
proof -
  consider "\<forall>fs'. snd (generate_waveform_csv h dir fs') = fs'"
    | name content where "\<forall>fs'. snd (generate_waveform_csv h dir fs')
                                 = store_waveform dir name content fs'"
    using generate_waveform_csv_shape by blast
  then show ?thesis
  proof cases
    case 1
    then show ?thesis by simp
  next
    case 2
    then show ?thesis by (simp add: store_waveform_twice)
  qed
qed

text \<open>
  Claim C7, at an input where the code departs from it. The header of a file with the
  line \<open>BFREQ=1,5\<close> has the base frequency \<open>1,5\<close> (not a number, so kept as written).
  The first generation writes \<open>Square_1,5.csv\<close>; the CSV writer quotes the two fields
  that hold a comma. The second generation reads the file back by splitting every line at
  each comma, finds rows different from the rows to be written, and writes the file again:
  two writes, where the claim promises that the second is skipped. The content is the same
  after both (\<open>waveform_regenerated_same_content\<close>), and for \<open>BFREQ=1.5\<close> the second
  write is skipped.
\<close>

theorem waveform_rewrite_not_skipped:
  "base_frequency (parse_file_headers [''BFREQ=1,5'']) = Some ''1,5''
   \<and> fst (generate_waveform_csv (parse_file_headers [''BFREQ=1,5'']) ''W'' [])
       = Inr (Some ''Square_1,5.csv'')
   \<and> length (snd (generate_waveform_csv (parse_file_headers [''BFREQ=1,5'']) ''W'' [])) = 1
   \<and> length (snd (generate_waveform_csv (parse_file_headers [''BFREQ=1,5'']) ''W''
                (snd (generate_waveform_csv (parse_file_headers [''BFREQ=1,5'']) ''W'' [])))) = 2
   \<and> existing_content (csv_text (square100_content ''Square_1,5'' ''1,5''))
       \<noteq> square100_content ''Square_1,5'' ''1,5''
   \<and> length (snd (generate_waveform_csv (parse_file_headers [''BFREQ=1.5'']) ''W''
                (snd (generate_waveform_csv (parse_file_headers [''BFREQ=1.5'']) ''W'' [])))) = 1"
  by code_simp

end
